theory Spec2Isabelle
  imports Main "HOL-Library.Char_ord" "HOL-Library.List_Lexorder"
begin

section \<open>Python values used by the models\<close>

text \<open>
  Exceptions are values. A function of the source that may raise returns
  \<open>exn + 'a\<close>, with \<open>Inl\<close> carrying the exception.
\<close>

datatype exn = ValueError string | IntegrityError string | DoesNotExist | AttributeError string

text \<open>\<open>str(n)\<close> for a non-negative integer: its decimal digits.\<close>

definition digit_char :: "nat \<Rightarrow> char" where
  "digit_char n = ''0123456789'' ! n"

function str_nat :: "nat \<Rightarrow> string" where
  "str_nat n = (if n < 10 then [digit_char n] else str_nat (n div 10) @ [digit_char (n mod 10)])"
  by pat_completeness auto
termination
  by (relation "measure id") auto

declare str_nat.simps [simp del]

text \<open>\<open>str(i)\<close> for a Python int.\<close>

definition str_int :: "int \<Rightarrow> string" where
  "str_int i = (if i < 0 then CHR ''-'' # str_nat (nat (- i)) else str_nat (nat i))"

text \<open>Left padding with zeros up to a width, as \<open>str.zfill\<close> and the \<open>0Nd\<close> format do.\<close>

definition zfill :: "nat \<Rightarrow> string \<Rightarrow> string" where
  "zfill w s = replicate (w - length s) CHR ''0'' @ s"

text \<open>
  An aware UTC \<open>datetime\<close>, as \<open>timezone.now()\<close> returns, and its \<open>str()\<close>:
  \<open>YYYY-MM-DD HH:MM:SS[.ffffff]+00:00\<close>.
\<close>

record datetime =
  dt_year :: nat
  dt_month :: nat
  dt_day :: nat
  dt_hour :: nat
  dt_minute :: nat
  dt_second :: nat
  dt_microsecond :: nat

definition str_datetime :: "datetime \<Rightarrow> string" where
  "str_datetime t =
     zfill 4 (str_nat (dt_year t)) @ ''-'' @ zfill 2 (str_nat (dt_month t)) @ ''-'' @
     zfill 2 (str_nat (dt_day t)) @ '' '' @ zfill 2 (str_nat (dt_hour t)) @ '':'' @
     zfill 2 (str_nat (dt_minute t)) @ '':'' @ zfill 2 (str_nat (dt_second t)) @
     (if dt_microsecond t = 0 then [] else ''.'' @ zfill 6 (str_nat (dt_microsecond t))) @
     ''+00:00''"

text \<open>
  The text an f-string puts for a nullable \<open>DateTimeField\<close>: \<open>None\<close> while the field
  has no value yet, the \<open>str()\<close> of the datetime afterwards.
\<close>

definition fmt_datetime :: "datetime option \<Rightarrow> string" where
  "fmt_datetime t = (case t of None \<Rightarrow> ''None'' | Some v \<Rightarrow> str_datetime v)"

section \<open>Users, roles and privileges (apps/auth/models.py)\<close>

record Privilege =
  codename :: string
  p_is_active :: bool

record Role =
  role_id :: nat
  role_name :: string

record User =
  u_id :: nat
  username :: string
  full_name :: string
  email :: string
  u_role :: "Role option"
  u_status :: string
  is_superuser :: bool
  password :: string
  is_active :: bool

text \<open>
  \<open>request.user\<close>: \<open>None\<close>, Django's \<open>AnonymousUser\<close> (never authenticated, never a
  superuser) or a \<open>User\<close> row (always authenticated).
\<close>

datatype actor = NoUser | AnonymousUser | AuthUser User

section \<open>The audit ledger (apps/audit/models.py)\<close>

record AuditTrail =
  a_pk :: "nat option"
  action_time :: "datetime option"
  action :: string
  a_user :: "nat option"
  attempted_username :: string
  a_request_id :: "nat option"
  a_storage_id :: "nat option"
  a_crate_id :: "nat option"
  a_document_id :: "nat option"
  message :: string
  ip_address :: "string option"
  user_agent :: "string option"

section \<open>The signature ledger (apps/auth/models_signature.py)\<close>

text \<open>
  \<open>signature_data\<close> is a JSON value of a type \<open>'d\<close>; \<open>json.dumps(_, sort_keys=True)\<close>
  and \<open>hashlib.sha256(_.encode()).hexdigest()\<close> are library functions, taken as the
  parameters \<open>J\<close> and \<open>H\<close> of the operations that call them.
\<close>

record 'd DigitalSignature =
  s_pk :: "nat option"
  signer :: nat
  signer_username :: string
  signer_full_name :: string
  signer_role :: string
  signer_email :: string
  password_verified_at :: "datetime option"
  signature_type :: string
  signature_purpose :: string
  signature_timestamp :: "datetime option"
  signed_model :: string
  signed_record_id :: int
  signed_record_description :: string
  data_hash :: string
  signature_data :: 'd
  signature_hash :: string
  s_ip_address :: "string option"
  s_user_agent :: string
  is_valid :: bool
  invalidation_reason :: string

section \<open>Requests, crates and storage (apps/requests, apps/documents, apps/storage)\<close>

record Storage =
  st_id :: nat
  st_unit_code :: string
  room_name :: string
  rack_name :: string
  compartment_name :: string
  shelf_name :: "string option"

record Crate =
  c_pk :: "nat option"
  barcode :: string
  c_status :: string
  c_storage :: "nat option"
  c_unit :: nat
  c_unit_code :: string
  c_department :: nat
  c_department_name :: string
  c_section :: "nat option"
  c_section_name :: "string option"
  c_document_count :: nat

record Request =
  request_type :: string
  r_crate :: nat
  r_unit :: nat
  r_status :: string
  approved_by :: "nat option"
  approval_date :: "datetime option"
  allocated_by :: "nat option"
  allocation_date :: "datetime option"
  issued_by :: "nat option"
  issue_date :: "datetime option"
  return_date :: "datetime option"
  withdrawn_by :: "nat option"
  withdrawn_by_full_name :: string
  purpose :: string
  full_withdrawal :: bool
  expected_return_date :: "datetime option"

record SendBack =
  sb_request :: nat
  sb_reason :: string
  sb_created_by :: nat
  sendback_type :: string

section \<open>The database\<close>

text \<open>
  One table per model. The ledgers and the send-back table are lists of rows in insertion
  order, the others are maps from the primary key; each \<open>AutoField\<close> has its sequence.
\<close>

record 'd db =
  audit_trail :: "AuditTrail list"
  audit_seq :: nat
  digital_signatures :: "'d DigitalSignature list"
  signature_seq :: nat
  requests :: "nat \<rightharpoonup> Request"
  request_seq :: nat
  request_documents :: "(nat \<times> nat) list"
  crates :: "nat \<rightharpoonup> Crate"
  crate_seq :: nat
  storages :: "nat \<rightharpoonup> Storage"
  documents :: "nat set"
  sendbacks :: "SendBack list"
  role_privileges :: "(nat \<times> Privilege) list"

section \<open>Audit ledger operations\<close>

text \<open>
  \<open>super().save()\<close> of Django for a ledger row without primary key: the row is inserted,
  the sequence gives the key and every \<open>auto_now_add\<close> column takes the clock's value,
  which is also written back to the instance.
\<close>

definition AuditTrail_insert :: "datetime \<Rightarrow> AuditTrail \<Rightarrow> 'd db \<Rightarrow> AuditTrail \<times> 'd db" where
  "AuditTrail_insert now self d =
     (let row = self\<lparr>a_pk := Some (Suc (audit_seq d)), action_time := Some now\<rparr>
      in (row, d\<lparr>audit_trail := audit_trail d @ [row], audit_seq := Suc (audit_seq d)\<rparr>))"

text \<open>\<open>AuditTrail.save\<close>: only creation is allowed (\<open>pk is None\<close>).\<close>

definition AuditTrail_save :: "datetime \<Rightarrow> AuditTrail \<Rightarrow> 'd db \<Rightarrow> exn + AuditTrail \<times> 'd db" where
  "AuditTrail_save now self d =
     (if a_pk self \<noteq> None
      then Inl (ValueError ''Audit trail records cannot be modified once created (21 CFR Part 11 compliance)'')
      else Inr (AuditTrail_insert now self d))"

text \<open>\<open>AuditTrail.delete\<close> raises for every instance.\<close>

definition AuditTrail_delete :: "AuditTrail \<Rightarrow> 'd db \<Rightarrow> exn + 'd db" where
  "AuditTrail_delete self d =
     Inl (ValueError ''Audit trail records cannot be deleted (21 CFR Part 11 compliance)'')"

section \<open>Signature ledger operations\<close>

text \<open>Python truth value of a primary key: \<open>None\<close> and \<open>0\<close> are false.\<close>

definition truthy_pk :: "nat option \<Rightarrow> bool" where
  "truthy_pk k = (case k of None \<Rightarrow> False | Some n \<Rightarrow> n \<noteq> 0)"

text \<open>The string both \<open>save\<close> and \<open>verify_integrity\<close> hash, built from the instance's fields.\<close>

definition signature_string :: "'d DigitalSignature \<Rightarrow> string" where
  "signature_string self =
     signer_username self @ ''|'' @ signer_full_name self @ ''|'' @ signer_role self @ ''|'' @
     signature_type self @ ''|'' @ fmt_datetime (signature_timestamp self) @ ''|'' @
     signed_model self @ ''|'' @ str_int (signed_record_id self) @ ''|'' @ data_hash self"

text \<open>
  \<open>data_hash\<close> and \<open>signature_hash\<close> are declared \<open>unique=True\<close>: the table refuses a row
  whose data hash or signature hash is the one of another stored row.
\<close>

definition unique_hashes :: "'d DigitalSignature \<Rightarrow> 'd DigitalSignature list \<Rightarrow> bool" where
  "unique_hashes self rows =
     (\<forall>r \<in> set rows. data_hash r \<noteq> data_hash self \<and> signature_hash r \<noteq> signature_hash self)"

text \<open>
  \<open>super().save()\<close> of Django for a signature: a row without key is inserted with the
  next key and both \<open>auto_now_add\<close> columns (\<open>password_verified_at\<close>,
  \<open>signature_timestamp\<close>) set from the clock; a row whose key is set replaces the stored
  row of that key, or is inserted under that key when there is none. Either way the
  unique columns are checked against the other rows and a clash raises \<open>IntegrityError\<close>.
\<close>

definition DigitalSignature_super_save ::
  "datetime \<Rightarrow> 'd DigitalSignature \<Rightarrow> 'd db \<Rightarrow> exn + 'd DigitalSignature \<times> 'd db" where
  "DigitalSignature_super_save now self d =
     (case s_pk self of
        None \<Rightarrow>
          (if \<not> unique_hashes self (digital_signatures d)
           then Inl (IntegrityError ''UNIQUE constraint failed: digital_signatures'')
           else let row = self\<lparr>s_pk := Some (Suc (signature_seq d)),
                                password_verified_at := Some now,
                                signature_timestamp := Some now\<rparr>
                in Inr (row, d\<lparr>digital_signatures := digital_signatures d @ [row],
                                signature_seq := Suc (signature_seq d)\<rparr>))
      | Some k \<Rightarrow>
          (if \<not> unique_hashes self (filter (\<lambda>r. s_pk r \<noteq> Some k) (digital_signatures d))
           then Inl (IntegrityError ''UNIQUE constraint failed: digital_signatures'')
           else if \<exists>r \<in> set (digital_signatures d). s_pk r = Some k
           then Inr (self, d\<lparr>digital_signatures :=
                   map (\<lambda>r. if s_pk r = Some k then self else r) (digital_signatures d)\<rparr>)
           else Inr (self, d\<lparr>digital_signatures := digital_signatures d @ [self]\<rparr>)))"

text \<open>
  \<open>DigitalSignature.save\<close>: refuses an instance with a (true) key, computes
  \<open>signature_hash\<close> from the instance's current fields, then calls \<open>super().save()\<close>.
\<close>

definition DigitalSignature_save ::
  "(string \<Rightarrow> string) \<Rightarrow> datetime \<Rightarrow> 'd DigitalSignature \<Rightarrow> 'd db
     \<Rightarrow> exn + 'd DigitalSignature \<times> 'd db" where
  "DigitalSignature_save H now self d =
     (if truthy_pk (s_pk self)
      then Inl (ValueError ''Digital signatures are immutable and cannot be modified after creation'')
      else DigitalSignature_super_save now
             (self\<lparr>signature_hash := H (signature_string self)\<rparr>) d)"

text \<open>
  \<open>DigitalSignature\<close> defines no \<open>delete\<close>: the call reaches Django's \<open>Model.delete\<close>, which
  raises for an instance without key and otherwise removes the row of that key.
\<close>

definition DigitalSignature_delete :: "'d DigitalSignature \<Rightarrow> 'd db \<Rightarrow> exn + 'd db" where
  "DigitalSignature_delete self d =
     (case s_pk self of
        None \<Rightarrow> Inl (ValueError ''DigitalSignature object can't be deleted because its id attribute is set to None.'')
      | Some k \<Rightarrow> Inr (d\<lparr>digital_signatures := filter (\<lambda>r. s_pk r \<noteq> Some k) (digital_signatures d)\<rparr>))"

text \<open>The HTTP request's metadata that \<open>create_signature\<close> reads.\<close>

record http_meta =
  REMOTE_ADDR :: "string option"
  HTTP_USER_AGENT :: "string option"
  HTTP_X_FORWARDED_FOR :: "string option"

definition create_signature ::
  "(string \<Rightarrow> string) \<Rightarrow> ('d \<Rightarrow> string) \<Rightarrow> datetime \<Rightarrow> User \<Rightarrow> string \<Rightarrow> string \<Rightarrow> string \<Rightarrow> int
     \<Rightarrow> 'd \<Rightarrow> string \<Rightarrow> http_meta option \<Rightarrow> 'd db \<Rightarrow> exn + 'd DigitalSignature \<times> 'd db" where
  "create_signature H J now user sig_type purpose_text model record_id signed_data description request d =
     (let data_string = J signed_data;
          dh = H data_string;
          signature = \<lparr>s_pk = None,
            signer = u_id user,
            signer_username = username user,
            signer_full_name = full_name user,
            signer_role = (case u_role user of Some r \<Rightarrow> role_name r | None \<Rightarrow> ''No Role''),
            signer_email = email user,
            password_verified_at = None,
            signature_type = sig_type,
            signature_purpose = purpose_text,
            signature_timestamp = None,
            signed_model = model,
            signed_record_id = record_id,
            signed_record_description = description,
            data_hash = dh,
            signature_data = signed_data,
            signature_hash = [],
            s_ip_address = (case request of Some m \<Rightarrow> REMOTE_ADDR m | None \<Rightarrow> None),
            s_user_agent = (case request of
                              Some m \<Rightarrow> take 500 (case HTTP_USER_AGENT m of Some a \<Rightarrow> a | None \<Rightarrow> [])
                            | None \<Rightarrow> []),
            is_valid = True,
            invalidation_reason = []\<rparr>
      in DigitalSignature_save H now signature d)"

definition verify_integrity ::
  "(string \<Rightarrow> string) \<Rightarrow> ('d \<Rightarrow> string) \<Rightarrow> 'd DigitalSignature \<Rightarrow> bool \<times> string" where
  "verify_integrity H J self =
     (let calculated_hash = H (J (signature_data self))
      in if calculated_hash \<noteq> data_hash self
         then (False, ''Data hash mismatch - signature data has been tampered with'')
         else let calculated_sig_hash = H (signature_string self)
              in if calculated_sig_hash \<noteq> signature_hash self
                 then (False, ''Signature hash mismatch - signature has been altered'')
                 else if \<not> is_valid self
                 then (False, ''Signature invalidated: '' @ invalidation_reason self)
                 else (True, ''Signature is valid and intact''))"

section \<open>The privilege resolver (apps/auth/permissions.py)\<close>

text \<open>
  \<open>Role.get_privilege_codenames\<close>: the codenames of the role's privileges that are active,
  read from the role-privilege table.
\<close>

definition get_privilege_codenames :: "Role \<Rightarrow> 'd db \<Rightarrow> string list" where
  "get_privilege_codenames r d =
     map (\<lambda>(_, p). codename p)
       (filter (\<lambda>(rid, p). rid = role_id r \<and> p_is_active p) (role_privileges d))"

text \<open>
  \<open>has_privilege\<close>, with the database it reads passed in and handed back, so that what it
  leaves behind can be stated.
\<close>

definition has_privilege :: "actor \<Rightarrow> string \<Rightarrow> 'd db \<Rightarrow> bool \<times> 'd db" where
  "has_privilege user privilege_codename d =
     (case user of
        NoUser \<Rightarrow> (False, d)
      | AnonymousUser \<Rightarrow> (False, d)
      | AuthUser u \<Rightarrow>
          if is_superuser u then (True, d)
          else (case u_role u of
                  Some r \<Rightarrow> (privilege_codename \<in> set (get_privilege_codenames r d), d)
                | None \<Rightarrow> (False, d)))"

section \<open>HTTP requests and responses\<close>

text \<open>
  The parsed body of a request (\<open>request.data\<close>), field by field: a field is \<open>None\<close> when
  the body does not have it.
\<close>

record http_request =
  req_user :: User
  req_meta :: http_meta
  data_digital_signature :: "string option"
  data_reason :: "string option"
  data_storage :: "nat option"
  data_crate_id :: "nat option"
  data_purpose :: "string option"
  data_full_withdrawal :: "bool option"
  data_document_ids :: "nat list option"
  data_expected_return_date :: "datetime option"

datatype pyval = PStr string | PNat nat | PNone

datatype response = Response nat "(string \<times> pyval) list"

fun status_code :: "response \<Rightarrow> nat" where
  "status_code (Response c _) = c"

text \<open>An exception that leaves a view: the framework answers 500.\<close>

definition server_error :: "exn \<Rightarrow> response" where
  "server_error e = Response 500 []"

subsection \<open>Serializer fields (apps/requests/serializers.py)\<close>

text \<open>
  The characters Python's \<open>str.strip()\<close> removes, among the code points below 256:
  the blank, \<open>\t \n \v \f \r\<close>, the separators \<open>0x1C\<close> to \<open>0x1F\<close>, \<open>0x85\<close> and \<open>0xA0\<close>.
\<close>

definition is_space :: "char \<Rightarrow> bool" where
  "is_space c = (c \<in> set [CHR '' '', CHR 0x09, CHR 0x0A, CHR 0x0B, CHR 0x0C, CHR 0x0D,
                            CHR 0x1C, CHR 0x1D, CHR 0x1E, CHR 0x1F, CHR 0x85, CHR 0xA0])"

definition py_strip :: "string \<Rightarrow> string" where
  "py_strip s = rev (dropWhile is_space (rev (dropWhile is_space s)))"

text \<open>
  A required \<open>CharField(min_length=n)\<close>: a missing value is invalid; a value that is blank
  once trimmed is invalid; the trimmed value then passes the field's validators, which
  refuse a NUL character and a length below \<open>n\<close>. \<open>None\<close> is an invalid field.
\<close>

definition CharField :: "nat \<Rightarrow> string option \<Rightarrow> string option" where
  "CharField n v =
     (case v of
        None \<Rightarrow> None
      | Some s \<Rightarrow>
          (let t = py_strip s
           in if t = [] then None
              else if CHR 0x00 \<in> set t \<or> length t < n then None
              else Some t))"

text \<open>
  \<open>CharField(required=False, allow_blank=True)\<close>: a missing value is valid and leaves no
  entry (\<open>Some None\<close>); a present value is trimmed and may be blank, but not hold a NUL
  character (\<open>None\<close>: the field is invalid).
\<close>

definition CharField_optional :: "string option \<Rightarrow> string option option" where
  "CharField_optional v =
     (case v of
        None \<Rightarrow> Some None
      | Some s \<Rightarrow> (let t = py_strip s in if CHR 0x00 \<in> set t then None else Some (Some t)))"

text \<open>\<open>ApproveRequestSerializer\<close> and \<open>IssueDocumentsSerializer\<close>: \<open>digital_signature\<close> only.\<close>

definition ApproveRequestSerializer_is_valid :: "http_request \<Rightarrow> bool" where
  "ApproveRequestSerializer_is_valid request = (CharField 0 (data_digital_signature request) \<noteq> None)"

text \<open>\<open>RejectRequestSerializer\<close>: the validated \<open>reason\<close>, when the data is valid.\<close>

definition RejectRequestSerializer :: "http_request \<Rightarrow> string option" where
  "RejectRequestSerializer request =
     (if CharField 0 (data_digital_signature request) = None then None
      else CharField 0 (data_reason request))"

text \<open>\<open>SendBackCreateSerializer\<close>: \<open>reason\<close> has \<open>min_length=10\<close>.\<close>

definition SendBackCreateSerializer :: "http_request \<Rightarrow> string option" where
  "SendBackCreateSerializer request =
     (if CharField 0 (data_digital_signature request) = None then None
      else CharField 10 (data_reason request))"

text \<open>\<open>AllocateStorageSerializer\<close>: the validated \<open>storage\<close> id.\<close>

definition AllocateStorageSerializer :: "http_request \<Rightarrow> nat option" where
  "AllocateStorageSerializer request =
     (if CharField 0 (data_digital_signature request) = None then None
      else data_storage request)"

text \<open>\<open>ReturnDocumentsSerializer\<close>: the validated \<open>storage\<close> id and optional \<open>reason\<close>.\<close>

definition ReturnDocumentsSerializer :: "http_request \<Rightarrow> (nat \<times> string option) option" where
  "ReturnDocumentsSerializer request =
     (if CharField 0 (data_digital_signature request) = None then None
      else (case (data_storage request, CharField_optional (data_reason request)) of
              (Some s, Some r) \<Rightarrow> Some (s, r)
            | _ \<Rightarrow> None))"




definition serializer_errors :: response where
  "serializer_errors = Response 400 [(''errors'', PStr ''invalid'')]"

subsection \<open>Audit logging (apps/audit/utils.py, apps/auth/decorators.py)\<close>

text \<open>\<open>str.split(',')[0]\<close>: the text before the first comma.\<close>

definition get_client_ip :: "http_meta \<Rightarrow> string option" where
  "get_client_ip m =
     (case HTTP_X_FORWARDED_FOR m of
        Some x \<Rightarrow> (if x \<noteq> [] then Some (takeWhile (\<lambda>c. c \<noteq> CHR '','') x) else REMOTE_ADDR m)
      | None \<Rightarrow> REMOTE_ADDR m)"

definition get_user_agent :: "http_meta \<Rightarrow> string" where
  "get_user_agent m = take 500 (case HTTP_USER_AGENT m of Some a \<Rightarrow> a | None \<Rightarrow> [])"

text \<open>The instance \<open>log_audit_event\<close> hands to \<open>AuditTrail.objects.create\<close>.\<close>

definition new_audit_entry ::
  "User option \<Rightarrow> string \<Rightarrow> string \<Rightarrow> http_meta option \<Rightarrow> nat option \<Rightarrow> nat option
     \<Rightarrow> nat option \<Rightarrow> nat option \<Rightarrow> string option \<Rightarrow> AuditTrail" where
  "new_audit_entry usr act msg request rid sid cid did attempted =
     \<lparr>a_pk = None, action_time = None, action = act,
      a_user = map_option u_id usr,
      attempted_username =
        (case usr of Some u \<Rightarrow> username u
         | None \<Rightarrow> (case attempted of Some a \<Rightarrow> a | None \<Rightarrow> [])),
      a_request_id = rid, a_storage_id = sid, a_crate_id = cid, a_document_id = did,
      message = msg,
      ip_address = (case request of Some m \<Rightarrow> get_client_ip m | None \<Rightarrow> None),
      user_agent = map_option get_user_agent request\<rparr>"

text \<open>
  \<open>log_audit_event\<close>: builds the entry and creates it through \<open>AuditTrail.save\<close>; an
  exception of the creation is logged and raised again.
\<close>

definition log_audit_event ::
  "datetime \<Rightarrow> User option \<Rightarrow> string \<Rightarrow> string \<Rightarrow> http_meta option \<Rightarrow> nat option \<Rightarrow> nat option
     \<Rightarrow> nat option \<Rightarrow> nat option \<Rightarrow> string option \<Rightarrow> 'd db \<Rightarrow> exn + AuditTrail \<times> 'd db" where
  "log_audit_event now usr act msg request rid sid cid did attempted d =
     AuditTrail_save now (new_audit_entry usr act msg request rid sid cid did attempted) d"

definition log_request_created ::
  "datetime \<Rightarrow> User \<Rightarrow> nat \<Rightarrow> Request \<Rightarrow> http_meta option \<Rightarrow> 'd db \<Rightarrow> exn + AuditTrail \<times> 'd db" where
  "log_request_created now usr rid request_obj m d =
     log_audit_event now (Some usr) ''Created''
       (request_type request_obj @ '' request #'' @ str_nat rid @ '' created for Crate #'' @
          str_nat (r_crate request_obj))
       m (Some rid) None (Some (r_crate request_obj)) None None d"

definition log_request_approved ::
  "datetime \<Rightarrow> User \<Rightarrow> nat \<Rightarrow> Request \<Rightarrow> http_meta option \<Rightarrow> 'd db \<Rightarrow> exn + AuditTrail \<times> 'd db" where
  "log_request_approved now usr rid request_obj m d =
     log_audit_event now (Some usr) ''Approved''
       (request_type request_obj @ '' request #'' @ str_nat rid @ '' approved by '' @ full_name usr)
       m (Some rid) None (Some (r_crate request_obj)) None None d"

definition log_request_rejected ::
  "datetime \<Rightarrow> User \<Rightarrow> nat \<Rightarrow> Request \<Rightarrow> string \<Rightarrow> http_meta option \<Rightarrow> 'd db
     \<Rightarrow> exn + AuditTrail \<times> 'd db" where
  "log_request_rejected now usr rid request_obj reason m d =
     log_audit_event now (Some usr) ''Rejected''
       (request_type request_obj @ '' request #'' @ str_nat rid @ '' rejected. Reason: '' @ reason)
       m (Some rid) None (Some (r_crate request_obj)) None None d"

definition get_full_location :: "Storage \<Rightarrow> string" where
  "get_full_location s =
     (case shelf_name s of
        Some sh \<Rightarrow> (if sh \<noteq> []
          then st_unit_code s @ ''-'' @ room_name s @ ''-'' @ rack_name s @ compartment_name s @ sh
          else st_unit_code s @ ''-'' @ room_name s @ ''-'' @ rack_name s @ compartment_name s)
      | None \<Rightarrow> st_unit_code s @ ''-'' @ room_name s @ ''-'' @ rack_name s @ compartment_name s)"

definition log_storage_allocated ::
  "datetime \<Rightarrow> User \<Rightarrow> nat \<Rightarrow> Request \<Rightarrow> Storage \<Rightarrow> http_meta option \<Rightarrow> 'd db
     \<Rightarrow> exn + AuditTrail \<times> 'd db" where
  "log_storage_allocated now usr rid request_obj storage m d =
     log_audit_event now (Some usr) ''Allocated''
       (''Storage allocated for Crate #'' @ str_nat (r_crate request_obj) @ '': '' @
          get_full_location storage)
       m (Some rid) (Some (st_id storage)) (Some (r_crate request_obj)) None None d"

text \<open>
  \<open>log_document_issued\<close> formats \<open>request_obj.withdrawn_by.full_name\<close> into the message
  before it calls \<open>log_audit_event\<close>: when the nullable \<open>withdrawn_by\<close> is \<open>None\<close> the
  attribute access raises \<open>AttributeError\<close> and nothing is logged.
\<close>

definition log_document_issued ::
  "datetime \<Rightarrow> User \<Rightarrow> nat \<Rightarrow> Request \<Rightarrow> http_meta option \<Rightarrow> 'd db \<Rightarrow> exn + AuditTrail \<times> 'd db" where
  "log_document_issued now usr rid request_obj m d =
     (case withdrawn_by request_obj of
        None \<Rightarrow> Inl (AttributeError ''NoneType object has no attribute full_name'')
      | Some _ \<Rightarrow>
          log_audit_event now (Some usr) ''Issued''
            (''Documents from Crate #'' @ str_nat (r_crate request_obj) @ '' issued to '' @
               withdrawn_by_full_name request_obj)
            m (Some rid) None (Some (r_crate request_obj)) None None d)"

definition log_document_returned ::
  "datetime \<Rightarrow> User \<Rightarrow> nat \<Rightarrow> Request \<Rightarrow> http_meta option \<Rightarrow> 'd db \<Rightarrow> exn + AuditTrail \<times> 'd db" where
  "log_document_returned now usr rid request_obj m d =
     log_audit_event now (Some usr) ''Returned''
       (''Documents from Crate #'' @ str_nat (r_crate request_obj) @ '' returned'')
       m (Some rid) None (Some (r_crate request_obj)) None None d"

definition log_crate_destroyed ::
  "datetime \<Rightarrow> User \<Rightarrow> nat \<Rightarrow> Crate \<Rightarrow> http_meta option \<Rightarrow> 'd db \<Rightarrow> exn + AuditTrail \<times> 'd db" where
  "log_crate_destroyed now usr cid crate m d =
     log_audit_event now (Some usr) ''Deleted''
       (''Crate #'' @ str_nat cid @ '' with '' @ str_nat (c_document_count crate) @
          '' documents permanently destroyed'')
       m None None (Some cid) None None d"

section \<open>The request workflow (apps/requests/views.py)\<close>

text \<open>
  A view takes the clock's reading, the HTTP request, the key in the URL and the database,
  and gives the response and the database it leaves. No view opens a transaction unless the
  source does, so an exception that leaves a view keeps the writes made before it: the
  response is 500 and the database is the one at the point of the exception. The
  notification tasks and the broadcast signals do not touch these tables and are left out.
  Foreign keys are enforced by the store: \<open>request_obj.crate.id\<close> is the stored key; where a
  view reads a field of the crate, a missing row is the exception \<open>DoesNotExist\<close>.
\<close>

definition audit_then :: "exn + AuditTrail \<times> 'd db \<Rightarrow> 'd db \<Rightarrow> exn \<times> 'd db + 'd db" where
  "audit_then r d_before = (case r of Inl e \<Rightarrow> Inl (e, d_before) | Inr (_, d') \<Rightarrow> Inr d')"

definition approve_request :: "datetime \<Rightarrow> http_request \<Rightarrow> nat \<Rightarrow> 'd db \<Rightarrow> response \<times> 'd db" where
  "approve_request now request pk d =
     (if \<not> ApproveRequestSerializer_is_valid request then (serializer_errors, d)
      else case requests d pk of
        None \<Rightarrow> (Response 404 [(''error'', PStr ''Request not found'')], d)
      | Some request_obj \<Rightarrow>
          if r_status request_obj \<noteq> ''Pending''
          then (Response 400 [(''error'', PStr (''Request is not in pending state (current status: '' @
                                 r_status request_obj @ '')''))], d)
          else
            (let usr = req_user request;
                 request_obj' = request_obj\<lparr>r_status := ''Approved'', approved_by := Some (u_id usr),
                                            approval_date := Some now\<rparr>;
                 d1 = d\<lparr>requests := (requests d)(pk \<mapsto> request_obj')\<rparr>
             in case audit_then (log_request_approved now usr pk request_obj' (Some (req_meta request)) d1) d1 of
                  Inl (e, dp) \<Rightarrow> (server_error e, dp)
                | Inr d2 \<Rightarrow>
                    (Response 200 [(''message'', PStr (request_type request_obj' @ '' request approved successfully'')),
                                   (''request_id'', PNat pk), (''status'', PStr ''Approved'')], d2)))"

text \<open>
  The first step of \<open>reject_request\<close> after the guards: a withdrawal whose crate is
  \<open>Withdrawn\<close> gets the crate back to \<open>Active\<close>, with an audit entry.
\<close>

definition reject_restore_crate ::
  "datetime \<Rightarrow> http_request \<Rightarrow> nat \<Rightarrow> Request \<Rightarrow> 'd db \<Rightarrow> exn \<times> 'd db + 'd db" where
  "reject_restore_crate now request pk request_obj d =
     (if request_type request_obj = ''Withdrawal''
      then (case crates d (r_crate request_obj) of
              None \<Rightarrow> Inl (DoesNotExist, d)
            | Some crate \<Rightarrow>
                if c_status crate = ''Withdrawn''
                then (let d1 = d\<lparr>crates := (crates d)(r_crate request_obj \<mapsto> crate\<lparr>c_status := ''Active''\<rparr>)\<rparr>
                      in audit_then
                           (log_audit_event now (Some (req_user request)) ''Updated''
                              (''Crate #'' @ str_nat (r_crate request_obj) @
                               '' status restored to Active after withdrawal request #'' @ str_nat pk @
                               '' was rejected'')
                              (Some (req_meta request)) (Some pk) None (Some (r_crate request_obj)) None None d1)
                           d1)
                else Inr d)
      else Inr d)"

definition reject_request :: "datetime \<Rightarrow> http_request \<Rightarrow> nat \<Rightarrow> 'd db \<Rightarrow> response \<times> 'd db" where
  "reject_request now request pk d =
     (case RejectRequestSerializer request of
        None \<Rightarrow> (serializer_errors, d)
      | Some reason \<Rightarrow>
       (case requests d pk of
          None \<Rightarrow> (Response 404 [(''error'', PStr ''Request not found'')], d)
        | Some request_obj \<Rightarrow>
            if r_status request_obj \<notin> set [''Pending'', ''Sent Back'']
            then (Response 400 [(''error'', PStr (''Request cannot be rejected (current status: '' @
                     r_status request_obj @ ''). Only Pending or Sent Back requests can be rejected.''))], d)
            else
              (case reject_restore_crate now request pk request_obj d of
                 Inl (e, dp) \<Rightarrow> (server_error e, dp)
               | Inr d1 \<Rightarrow>
                  (let original_status = r_status request_obj;
                       request_obj' = request_obj\<lparr>r_status := ''Rejected''\<rparr>;
                       d2 = d1\<lparr>requests := (requests d1)(pk \<mapsto> request_obj')\<rparr>;
                       d3 = d2\<lparr>sendbacks := sendbacks d2 @
                              [\<lparr>sb_request = pk, sb_reason = reason,
                                sb_created_by = u_id (req_user request),
                                sendback_type = ''Change Request''\<rparr>]\<rparr>;
                       action_verb = (if original_status = ''Sent Back'' then ''canceled'' else ''rejected'')
                   in case audit_then (log_request_rejected now (req_user request) pk request_obj' reason
                                         (Some (req_meta request)) d3) d3 of
                        Inl (e, dp) \<Rightarrow> (server_error e, dp)
                      | Inr d4 \<Rightarrow>
                          (Response 200
                             [(''message'', PStr (request_type request_obj' @ '' request '' @ action_verb @ '' successfully'')),
                              (''request_id'', PNat pk), (''status'', PStr ''Rejected''),
                              (''crate_status'',
                                 (if request_type request_obj' = ''Withdrawal''
                                  then (case crates d4 (r_crate request_obj') of
                                          Some c \<Rightarrow> PStr (c_status c) | None \<Rightarrow> PNone)
                                  else PNone))], d4)))))"

definition send_back_request :: "datetime \<Rightarrow> http_request \<Rightarrow> nat \<Rightarrow> 'd db \<Rightarrow> response \<times> 'd db" where
  "send_back_request now request pk d =
     (case SendBackCreateSerializer request of
        None \<Rightarrow> (serializer_errors, d)
      | Some reason \<Rightarrow>
       (case requests d pk of
          None \<Rightarrow> (Response 404 [(''error'', PStr ''Request not found'')], d)
        | Some request_obj \<Rightarrow>
            if r_status request_obj \<notin> set [''Pending'', ''Sent Back'']
            then (Response 400 [(''error'', PStr (''Request cannot be sent back (current status: '' @
                     r_status request_obj @ ''). Only Pending or Sent Back requests can be sent back.''))], d)
            else
              (let request_obj' = request_obj\<lparr>r_status := ''Sent Back''\<rparr>;
                   d1 = d\<lparr>requests := (requests d)(pk \<mapsto> request_obj')\<rparr>;
                   d2 = d1\<lparr>sendbacks := sendbacks d1 @
                          [\<lparr>sb_request = pk, sb_reason = reason,
                            sb_created_by = u_id (req_user request),
                            sendback_type = ''Change Request''\<rparr>]\<rparr>
               in case audit_then
                         (log_audit_event now (Some (req_user request)) ''Sent Back''
                            (request_type request_obj' @ '' request #'' @ str_nat pk @
                             '' sent back for changes. Reason: '' @ reason)
                            (Some (req_meta request)) (Some pk) None (Some (r_crate request_obj')) None None d2)
                         d2 of
                    Inl (e, dp) \<Rightarrow> (server_error e, dp)
                  | Inr d3 \<Rightarrow>
                      (Response 200
                         [(''message'', PStr (request_type request_obj' @ '' request sent back for changes'')),
                          (''request_id'', PNat pk), (''status'', PStr ''Sent Back''),
                          (''reason'', PStr reason)], d3))))"

definition allocate_storage :: "datetime \<Rightarrow> http_request \<Rightarrow> nat \<Rightarrow> 'd db \<Rightarrow> response \<times> 'd db" where
  "allocate_storage now request pk d =
     (case AllocateStorageSerializer request of
        None \<Rightarrow> (serializer_errors, d)
      | Some storage_id \<Rightarrow>
       (case requests d pk of
          None \<Rightarrow> (Response 404 [(''error'', PStr ''Request not found'')], d)
        | Some request_obj \<Rightarrow>
            if r_status request_obj \<noteq> ''Approved''
            then (Response 400 [(''error'', PStr ''Request must be approved before storage allocation'')], d)
            else
              (case storages d storage_id of
                 None \<Rightarrow> (Response 404 [(''error'', PStr ''Storage location not found'')], d)
               | Some storage \<Rightarrow>
                  (case crates d (r_crate request_obj) of
                     None \<Rightarrow> (server_error DoesNotExist, d)
                   | Some crate \<Rightarrow>
                      (let d1 = d\<lparr>crates := (crates d)(r_crate request_obj \<mapsto> crate\<lparr>c_storage := Some storage_id\<rparr>)\<rparr>;
                           request_obj' = request_obj\<lparr>allocation_date := Some now,
                                                      allocated_by := Some (u_id (req_user request)),
                                                      r_status := ''Completed''\<rparr>;
                           d2 = d1\<lparr>requests := (requests d1)(pk \<mapsto> request_obj')\<rparr>
                       in case audit_then (log_storage_allocated now (req_user request) pk request_obj' storage
                                             (Some (req_meta request)) d2) d2 of
                            Inl (e, dp) \<Rightarrow> (server_error e, dp)
                          | Inr d3 \<Rightarrow>
                              (Response 200
                                 [(''message'', PStr ''Storage allocated successfully''),
                                  (''request_id'', PNat pk), (''crate_id'', PNat (r_crate request_obj')),
                                  (''location'', PStr (get_full_location storage))], d3))))))"




definition issue_documents :: "datetime \<Rightarrow> http_request \<Rightarrow> nat \<Rightarrow> 'd db \<Rightarrow> response \<times> 'd db" where
  "issue_documents now request pk d =
     (if \<not> ApproveRequestSerializer_is_valid request then (serializer_errors, d)
      else case requests d pk of
        None \<Rightarrow> (Response 404 [(''error'', PStr ''Request not found'')], d)
      | Some request_obj \<Rightarrow>
          if request_type request_obj \<noteq> ''Withdrawal''
          then (Response 400 [(''error'', PStr ''This endpoint is only for withdrawal requests'')], d)
          else if r_status request_obj \<noteq> ''Approved''
          then (Response 400 [(''error'', PStr ''Request must be approved before issuing documents'')], d)
          else
            (let request_obj' = request_obj\<lparr>r_status := ''Issued'', issue_date := Some now,
                                            issued_by := Some (u_id (req_user request))\<rparr>;
                 d1 = d\<lparr>requests := (requests d)(pk \<mapsto> request_obj')\<rparr>
             in case crates d1 (r_crate request_obj') of
                  None \<Rightarrow> (server_error DoesNotExist, d1)
                | Some crate \<Rightarrow>
                   (let d2 = d1\<lparr>crates := (crates d1)(r_crate request_obj' \<mapsto> crate\<lparr>c_status := ''Withdrawn''\<rparr>)\<rparr>
                    in case audit_then (log_document_issued now (req_user request) pk request_obj'
                                          (Some (req_meta request)) d2) d2 of
                         Inl (e, dp) \<Rightarrow> (server_error e, dp)
                       | Inr d3 \<Rightarrow>
                           (Response 200
                              [(''message'', PStr ''Documents issued successfully''),
                               (''request_id'', PNat pk), (''crate_id'', PNat (r_crate request_obj')),
                               (''expected_return_date'',
                                  (case expected_return_date request_obj' of
                                     Some t \<Rightarrow> PStr (str_datetime t) | None \<Rightarrow> PNone))], d3))))"

text \<open>The text \<open>return_documents\<close> logs for the crate's previous storage.\<close>

definition old_location :: "Crate \<Rightarrow> 'd db \<Rightarrow> exn + string" where
  "old_location crate d =
     (case c_storage crate of
        None \<Rightarrow> Inr ''No Storage''
      | Some sid \<Rightarrow> (case storages d sid of None \<Rightarrow> Inl DoesNotExist | Some s \<Rightarrow> Inr (get_full_location s)))"

definition return_documents :: "datetime \<Rightarrow> http_request \<Rightarrow> nat \<Rightarrow> 'd db \<Rightarrow> response \<times> 'd db" where
  "return_documents now request pk d =
     (case ReturnDocumentsSerializer request of
        None \<Rightarrow> (serializer_errors, d)
      | Some (storage_id, reason_opt) \<Rightarrow>
       (case requests d pk of
          None \<Rightarrow> (Response 404 [(''error'', PStr ''Request not found'')], d)
        | Some request_obj \<Rightarrow>
            if request_type request_obj \<noteq> ''Withdrawal''
            then (Response 400 [(''error'', PStr ''This endpoint is only for withdrawal requests'')], d)
            else if r_status request_obj \<noteq> ''Issued''
            then (Response 400 [(''error'', PStr ''Documents have not been issued yet'')], d)
            else
              (case storages d storage_id of
                 None \<Rightarrow> (Response 404 [(''error'', PStr ''Storage location not found'')], d)
               | Some storage \<Rightarrow>
                  (let request_obj' = request_obj\<lparr>r_status := ''Returned'', return_date := Some now\<rparr>;
                       d1 = d\<lparr>requests := (requests d)(pk \<mapsto> request_obj')\<rparr>
                   in case crates d1 (r_crate request_obj') of
                        None \<Rightarrow> (server_error DoesNotExist, d1)
                      | Some crate \<Rightarrow>
                         (let d2 = d1\<lparr>crates := (crates d1)(r_crate request_obj' \<mapsto>
                                         crate\<lparr>c_status := ''Active'', c_storage := Some storage_id\<rparr>)\<rparr>;
                              reason = (case reason_opt of Some r \<Rightarrow> r | None \<Rightarrow> []);
                              d3 = (if reason \<noteq> []
                                    then d2\<lparr>sendbacks := sendbacks d2 @
                                           [\<lparr>sb_request = pk, sb_reason = reason,
                                             sb_created_by = u_id (req_user request),
                                             sendback_type = ''Return Note''\<rparr>]\<rparr>
                                    else d2)
                          in case audit_then (log_document_returned now (req_user request) pk request_obj'
                                                (Some (req_meta request)) d3) d3 of
                               Inl (e, dp) \<Rightarrow> (server_error e, dp)
                             | Inr d4 \<Rightarrow>
                                (case old_location crate d4 of
                                   Inl e \<Rightarrow> (server_error e, d4)
                                 | Inr old_text \<Rightarrow>
                                    (case audit_then
                                            (log_audit_event now (Some (req_user request)) ''Allocated''
                                               (''Crate #'' @ str_nat (r_crate request_obj') @
                                                '' storage updated on return from '' @ old_text @ '' to '' @
                                                get_full_location storage)
                                               (Some (req_meta request)) None (Some (st_id storage))
                                               (Some (r_crate request_obj')) None None d4)
                                            d4 of
                                       Inl (e, dp) \<Rightarrow> (server_error e, dp)
                                     | Inr d5 \<Rightarrow>
                                         (Response 200
                                            [(''message'', PStr ''Documents returned successfully and storage allocated''),
                                             (''request_id'', PNat pk),
                                             (''crate_id'', PNat (r_crate request_obj')),
                                             (''storage_location'', PStr (get_full_location storage))], d5))))))))"

definition confirm_destruction :: "datetime \<Rightarrow> http_request \<Rightarrow> nat \<Rightarrow> 'd db \<Rightarrow> response \<times> 'd db" where
  "confirm_destruction now request pk d =
     (case requests d pk of
        None \<Rightarrow> (Response 404 [(''error'', PStr ''Request not found'')], d)
      | Some request_obj \<Rightarrow>
          if request_type request_obj \<noteq> ''Destruction''
          then (Response 400 [(''error'', PStr ''This endpoint is only for destruction requests'')], d)
          else if r_status request_obj \<noteq> ''Approved''
          then (Response 400 [(''error'', PStr ''Request must be approved before destruction'')], d)
          else
            (case crates d (r_crate request_obj) of
               None \<Rightarrow> (server_error DoesNotExist, d)
             | Some crate \<Rightarrow>
                (let crate' = crate\<lparr>c_status := ''Destroyed''\<rparr>;
                     d1 = d\<lparr>crates := (crates d)(r_crate request_obj \<mapsto> crate')\<rparr>;
                     request_obj' = request_obj\<lparr>r_status := ''Completed''\<rparr>;
                     d2 = d1\<lparr>requests := (requests d1)(pk \<mapsto> request_obj')\<rparr>
                 in case audit_then (log_crate_destroyed now (req_user request) (r_crate request_obj) crate'
                                       (Some (req_meta request)) d2) d2 of
                      Inl (e, dp) \<Rightarrow> (server_error e, dp)
                    | Inr d3 \<Rightarrow>
                        (Response 200
                           [(''message'', PStr ''Crate destroyed successfully''),
                            (''request_id'', PNat pk), (''crate_id'', PNat (r_crate request_obj))], d3))))"

text \<open>
  \<open>require_digital_signature\<close> (apps/auth/decorators.py of the backend): the password in
  \<open>digital_signature\<close> is checked again before the view runs. \<open>authenticate\<close> is Django's:
  it gives the user of that name when the password is right and the account is active.
\<close>

definition authenticate :: "User list \<Rightarrow> string \<Rightarrow> string \<Rightarrow> User option" where
  "authenticate users uname pw =
     find (\<lambda>u. username u = uname \<and> password u = pw \<and> is_active u) users"

definition require_digital_signature ::
  "User list \<Rightarrow> (http_request \<Rightarrow> 'd db \<Rightarrow> response \<times> 'd db) \<Rightarrow> http_request \<Rightarrow> 'd db \<Rightarrow> response \<times> 'd db" where
  "require_digital_signature users view_func request d =
     (case data_digital_signature request of
        None \<Rightarrow> (Response 400 [(''error'', PStr ''Password required'')], d)
      | Some digital_signature \<Rightarrow>
          if digital_signature = [] then (Response 400 [(''error'', PStr ''Password required'')], d)
          else if u_status (req_user request) \<noteq> ''Active''
          then (Response 403 [(''error'', PStr ''Account not active'')], d)
          else (case authenticate users (username (req_user request)) digital_signature of
                  None \<Rightarrow> (Response 403 [(''error'', PStr ''Authentication failed'')], d)
                | Some usr \<Rightarrow>
                    if u_id usr \<noteq> u_id (req_user request)
                    then (Response 403 [(''error'', PStr ''Authentication failed'')], d)
                    else view_func request d))"

section \<open>The barcode sequencer (apps/documents/models.py)\<close>

text \<open>\<open>name.replace(' ', '').replace('-', '')[:10]\<close>.\<close>

definition clean_name :: "string \<Rightarrow> string" where
  "clean_name s = take 10 (filter (\<lambda>c. c \<noteq> CHR ''-'') (filter (\<lambda>c. c \<noteq> CHR '' '') s))"

text \<open>The prefix \<open>unit_code/dept[/section]/year\<close> that \<open>Crate.save\<close> builds.\<close>

definition barcode_prefix :: "nat \<Rightarrow> Crate \<Rightarrow> string" where
  "barcode_prefix current_year self =
     (let dept_name_clean = clean_name (c_department_name self);
          section_name_clean =
            (if c_section self \<noteq> None
             then clean_name (case c_section_name self of Some n \<Rightarrow> n | None \<Rightarrow> [])
             else [])
      in if section_name_clean \<noteq> []
         then c_unit_code self @ ''/'' @ dept_name_clean @ ''/'' @ section_name_clean @ ''/'' @
              str_nat current_year
         else c_unit_code self @ ''/'' @ dept_name_clean @ ''/'' @ str_nat current_year)"

text \<open>
  The rows of the crate table. Keys come from the table's sequence, so they are looked up
  from 1 to the sequence's last value.
\<close>

definition crate_rows :: "'d db \<Rightarrow> Crate list" where
  "crate_rows d = List.map_filter (crates d) [1..<Suc (crate_seq d)]"

text \<open>\<open>str.startswith\<close>.\<close>

definition startswith :: "string \<Rightarrow> string \<Rightarrow> bool" where
  "startswith s p = (take (length p) s = p)"

text \<open>
  The query of \<open>Crate.save\<close>: the barcodes of the other crates of the same unit, department
  and section whose barcode starts with the prefix and a slash.
\<close>

definition sibling_barcodes :: "string \<Rightarrow> Crate \<Rightarrow> 'd db \<Rightarrow> string list" where
  "sibling_barcodes pre self d =
     map barcode
       (filter (\<lambda>c. c_unit c = c_unit self \<and> c_department c = c_department self
                   \<and> c_section c = c_section self \<and> startswith (barcode c) (pre @ ''/'')
                   \<and> c_pk c \<noteq> c_pk self)
          (crate_rows d))"

text \<open>\<open>aggregate(Max('barcode'))\<close>: the greatest string, \<open>None\<close> over no rows.\<close>

definition max_barcode :: "string list \<Rightarrow> string option" where
  "max_barcode bs = (case bs of [] \<Rightarrow> None | b # rest \<Rightarrow> Some (fold max rest b))"

text \<open>\<open>s.split('/')[-1]\<close>: the text after the last slash.\<close>

definition last_segment :: "string \<Rightarrow> string" where
  "last_segment s = rev (takeWhile (\<lambda>c. c \<noteq> CHR ''/'') (rev s))"

text \<open>
  Python's \<open>int(s)\<close> on ASCII text: blanks around, an optional sign, then decimal digits,
  where single underscores may stand between digits. \<open>None\<close> is the \<open>ValueError\<close>.
\<close>

definition is_digit :: "char \<Rightarrow> bool" where
  "is_digit c = (c \<in> set ''0123456789'')"

definition digit_val :: "char \<Rightarrow> nat" where
  "digit_val c = of_char c - 48"

fun valid_digits :: "string \<Rightarrow> bool" where
  "valid_digits [] = False"
| "valid_digits [c] = is_digit c"
| "valid_digits (c # u # rest) =
     (is_digit c \<and> (if u = CHR ''_'' then valid_digits rest else valid_digits (u # rest)))"

definition digits_value :: "string \<Rightarrow> nat" where
  "digits_value s = foldl (\<lambda>a c. 10 * a + digit_val c) 0 (filter (\<lambda>c. c \<noteq> CHR ''_'') s)"

definition python_int :: "string \<Rightarrow> int option" where
  "python_int s =
     (let t = py_strip s
      in case t of
           [] \<Rightarrow> None
         | c # r \<Rightarrow>
             if c = CHR ''-'' then (if valid_digits r then Some (- int (digits_value r)) else None)
             else if c = CHR ''+'' then (if valid_digits r then Some (int (digits_value r)) else None)
             else (if valid_digits t then Some (int (digits_value t)) else None))"

text \<open>The format \<open>{n:05d}\<close>: at least five characters, the sign first.\<close>

definition fmt_05d :: "int \<Rightarrow> string" where
  "fmt_05d n = (if n < 0 then CHR ''-'' # zfill 4 (str_nat (nat (- n))) else zfill 5 (str_nat (nat n)))"

text \<open>The number \<open>Crate.save\<close> gives the new crate.\<close>

definition next_number :: "string list \<Rightarrow> int" where
  "next_number bs =
     (case max_barcode bs of
        None \<Rightarrow> 1
      | Some m \<Rightarrow> (if m \<noteq> []
                   then (case python_int (last_segment m) of Some last_number \<Rightarrow> last_number + 1 | None \<Rightarrow> 1)
                   else 1))"

text \<open>
  \<open>super().save()\<close> of Django for a crate: \<open>barcode\<close> is unique, so a row whose barcode
  another row holds is refused; a crate without key is inserted under the next key, one
  with a key replaces (or becomes) the row of that key.
\<close>

definition Crate_super_save :: "Crate \<Rightarrow> 'd db \<Rightarrow> exn + Crate \<times> 'd db" where
  "Crate_super_save self d =
     (if barcode self \<in> set (map barcode (filter (\<lambda>c. c_pk c \<noteq> c_pk self) (crate_rows d)))
      then Inl (IntegrityError ''crates.barcode is not unique'')
      else (case c_pk self of
              None \<Rightarrow>
                (let k = Suc (crate_seq d); row = self\<lparr>c_pk := Some k\<rparr>
                 in Inr (row, d\<lparr>crates := (crates d)(k \<mapsto> row), crate_seq := k\<rparr>))
            | Some k \<Rightarrow> Inr (self, d\<lparr>crates := (crates d)(k \<mapsto> self)\<rparr>)))"

text \<open>
  \<open>Crate.save\<close>. \<open>uuid1\<close> is the hexadecimal text of the \<open>uuid4()\<close> of the placeholder. The
  second placeholder (\<open>TEMP-pk-...\<close>) is only ever held by the instance and is overwritten
  before the next write, so it does not appear.
\<close>

definition Crate_save :: "datetime \<Rightarrow> string \<Rightarrow> Crate \<Rightarrow> 'd db \<Rightarrow> exn + Crate \<times> 'd db" where
  "Crate_save now uuid1 self d =
     (if barcode self = [] \<and> \<not> truthy_pk (c_pk self)
      then (case Crate_super_save (self\<lparr>barcode := ''TEMP-'' @ uuid1\<rparr>) d of
              Inl e \<Rightarrow> Inl e
            | Inr (self1, d1) \<Rightarrow>
                (let barcode_prefix = barcode_prefix (dt_year now) self1;
                     n = next_number (sibling_barcodes barcode_prefix self1 d1)
                 in Crate_super_save (self1\<lparr>barcode := barcode_prefix @ ''/'' @ fmt_05d n\<rparr>) d1))
      else Crate_super_save self d)"

text \<open>Fixed-width decimal text, the form of the sequence part for numbers of up to the width.\<close>

fun dec :: "nat \<Rightarrow> nat \<Rightarrow> string" where
  "dec 0 n = []"
| "dec (Suc k) n = dec k (n div 10) @ [digit_char (n mod 10)]"

section \<open>Concrete data for the examples\<close>

definition t0 :: datetime where
  "t0 = \<lparr>dt_year = 2025, dt_month = 1, dt_day = 15, dt_hour = 10, dt_minute = 30,
         dt_second = 0, dt_microsecond = 0\<rparr>"

definition t1 :: datetime where
  "t1 = t0\<lparr>dt_minute := 45\<rparr>"

definition section_head :: User where
  "section_head = \<lparr>u_id = 7, username = ''asmith'', full_name = ''Alice Smith'',
     email = ''asmith@example.com'',
     u_role = Some \<lparr>role_id = 2, role_name = ''Section Head''\<rparr>,
     u_status = ''Active'', is_superuser = False, password = ''pw'', is_active = True\<rparr>"

definition http0 :: http_request where
  "http0 = \<lparr>req_user = section_head,
     req_meta = \<lparr>REMOTE_ADDR = Some ''10.0.0.1'', HTTP_USER_AGENT = Some ''curl'',
                 HTTP_X_FORWARDED_FOR = None\<rparr>,
     data_digital_signature = Some ''pw'', data_reason = Some ''wrong crate chosen'',
     data_storage = Some 3, data_crate_id = Some 1, data_purpose = Some ''audit'',
     data_full_withdrawal = None, data_document_ids = None,
     data_expected_return_date = Some (t0\<lparr>dt_year := 2026\<rparr>)\<rparr>"

definition crate0 :: Crate where
  "crate0 = \<lparr>c_pk = Some 1, barcode = ''MFG01/QC/2025/00001'', c_status = ''Active'',
     c_storage = Some 3, c_unit = 1, c_unit_code = ''MFG01'', c_department = 1,
     c_department_name = ''QC'', c_section = None, c_section_name = None,
     c_document_count = 2\<rparr>"

definition storage0 :: Storage where
  "storage0 = \<lparr>st_id = 3, st_unit_code = ''MFG01'', room_name = ''RoomA'', rack_name = ''Rack1'',
     compartment_name = ''C1'', shelf_name = None\<rparr>"

definition request0 :: Request where
  "request0 = \<lparr>request_type = ''Storage'', r_crate = 1, r_unit = 1, r_status = ''Pending'',
     approved_by = None, approval_date = None, allocated_by = None, allocation_date = None,
     issued_by = None, issue_date = None, return_date = None, withdrawn_by = Some 9,
     withdrawn_by_full_name = ''Bob Jones'', purpose = ''archive'', full_withdrawal = True,
     expected_return_date = None\<rparr>"

text \<open>A database with one crate, one storage location and one request (key 1).\<close>

definition db_with :: "Request \<Rightarrow> Crate \<Rightarrow> unit db" where
  "db_with r c = \<lparr>audit_trail = [], audit_seq = 0, digital_signatures = [], signature_seq = 0,
     requests = [1 \<mapsto> r], request_seq = 1, request_documents = [],
     crates = [1 \<mapsto> c], crate_seq = 1, storages = [3 \<mapsto> storage0], documents = {},
     sendbacks = [], role_privileges = []\<rparr>"

text \<open>
  A store in which the role of \<open>section_head\<close> (role 2) is linked to an active privilege
  \<open>approve_request\<close> and to a privilege \<open>allocate_storage\<close> that is switched off, and role
  3 to an active \<open>manage_users\<close>.
\<close>

definition db_roles :: "unit db" where
  "db_roles = (db_with request0 crate0)\<lparr>role_privileges :=
     [(2, \<lparr>codename = ''approve_request'', p_is_active = True\<rparr>),
      (2, \<lparr>codename = ''allocate_storage'', p_is_active = False\<rparr>),
      (3, \<lparr>codename = ''manage_users'', p_is_active = True\<rparr>)]\<rparr>"



section \<open>Properties of the ledgers\<close>

lemma AuditTrail_save_persisted_raises:
  "AuditTrail_save now (self\<lparr>a_pk := Some k\<rparr>) d =
     Inl (ValueError ''Audit trail records cannot be modified once created (21 CFR Part 11 compliance)'')"
  by (simp add: AuditTrail_save_def)

lemma AuditTrail_delete_raises:
  "AuditTrail_delete self d =
     Inl (ValueError ''Audit trail records cannot be deleted (21 CFR Part 11 compliance)'')"
  by (simp add: AuditTrail_delete_def)

lemma DigitalSignature_save_persisted_raises:
  "DigitalSignature_save H now (self\<lparr>s_pk := Some (Suc k)\<rparr>) d =
     Inl (ValueError ''Digital signatures are immutable and cannot be modified after creation'')"
  by (simp add: DigitalSignature_save_def truthy_pk_def)

text \<open>
  C2. The claim asks that every update and every delete of a persisted AuditEntry or
  SignatureRecord raises. Saving either one and deleting an AuditEntry do raise (the three
  lemmas above), but deleting a persisted SignatureRecord does not: the model defines no
  \<open>delete\<close>, so the call returns normally and the row of that key is gone from the table.
\<close>

theorem DigitalSignature_delete_removes_row:
  "DigitalSignature_delete (self\<lparr>s_pk := Some k\<rparr>) d =
     Inr (d\<lparr>digital_signatures := filter (\<lambda>r. s_pk r \<noteq> Some k) (digital_signatures d)\<rparr>)"
  by (simp add: DigitalSignature_delete_def)

subsection \<open>Signing and verifying\<close>

lemma str_nat_hd: "str_nat n \<noteq> [] \<and> (\<exists>k<10. hd (str_nat n) = digit_char k)"
proof (induction n rule: str_nat.induct)
  case (1 n)
  show ?case
  proof (cases "n < 10")
    case True
    then show ?thesis by (subst str_nat.simps, subst str_nat.simps) auto
  next
    case False
    with 1 show ?thesis by (subst str_nat.simps, subst str_nat.simps) auto
  qed
qed

lemma digit_char_not_N: "k < 10 \<Longrightarrow> digit_char k \<noteq> CHR ''N''"
proof -
  assume "k < 10"
  then have "k \<in> {0, 1, 2, 3, 4, 5, 6, 7, 8, 9}" by auto
  then show ?thesis by (auto simp: digit_char_def)
qed

lemma zfill_str_nat_hd: "0 < w \<Longrightarrow> hd (zfill w (str_nat n) @ rest) \<noteq> CHR ''N''"
proof -
  assume w: "0 < w"
  obtain k where ne: "str_nat n \<noteq> []" and k: "k < 10" "hd (str_nat n) = digit_char k"
    using str_nat_hd by blast
  show ?thesis
  proof (cases "w - length (str_nat n)")
    case 0
    then show ?thesis using ne k digit_char_not_N by (simp add: zfill_def)
  next
    case (Suc m)
    then show ?thesis by (simp add: zfill_def)
  qed
qed

lemma str_datetime_not_None: "str_datetime t \<noteq> ''None''"
proof
  assume "str_datetime t = ''None''"
  then have "hd (str_datetime t) = CHR ''N''" by simp
  moreover have "hd (str_datetime t) \<noteq> CHR ''N''"
    unfolding str_datetime_def by (rule zfill_str_nat_hd) simp
  ultimately show False by simp
qed

lemma signature_string_timestamp:
  "signature_string (self\<lparr>signature_timestamp := Some now\<rparr>) \<noteq>
   signature_string (self\<lparr>signature_timestamp := None\<rparr>)"
proof -
  have "str_datetime now @ rest \<noteq> ''None'' @ rest" for rest
    using str_datetime_not_None by simp
  then show ?thesis
    by (simp add: signature_string_def fmt_datetime_def)
qed

lemma create_signature_same_payload_raises:
  assumes "\<exists>r \<in> set (digital_signatures d). data_hash r = H (J signed_data)"
  shows "create_signature H J now user sig_type purpose_text model record_id signed_data
           description request d = Inl (IntegrityError ''UNIQUE constraint failed: digital_signatures'')"
  using assms
  by (auto simp: create_signature_def DigitalSignature_save_def truthy_pk_def
      DigitalSignature_super_save_def unique_hashes_def Let_def)

text \<open>
  C1. The claim asks that \<open>verify_integrity\<close> on the record that \<open>create_signature\<close>
  returns is valid. \<open>save\<close> hashes the signature string before \<open>super().save()\<close> has given
  \<open>signature_timestamp\<close> its value, so the stored \<open>signature_hash\<close> is the hash of the
  string with \<open>None\<close> in the timestamp's place; \<open>verify_integrity\<close> hashes the string with
  the timestamp. Whenever the table's unique columns let the record in (no stored record
  has its data hash or its signature hash), \<open>create_signature\<close> returns it, the two
  strings differ, and the verdict is valid exactly when the hash function gives both the
  same digest.
\<close>

theorem verify_after_create_needs_collision:
  assumes "\<forall>r \<in> set (digital_signatures d). data_hash r \<noteq> H (J signed_data)"
    and "\<forall>r \<in> set (digital_signatures d). signature_hash r \<noteq>
           H (username user @ ''|'' @ full_name user @ ''|'' @
              (case u_role user of Some r \<Rightarrow> role_name r | None \<Rightarrow> ''No Role'') @ ''|'' @
              sig_type @ ''|'' @ ''None'' @ ''|'' @ model @ ''|'' @ str_int record_id @ ''|'' @
              H (J signed_data))"
  shows "\<exists>s d'. create_signature H J now user sig_type purpose_text model record_id signed_data
             description request d = Inr (s, d')
     \<and> signature_timestamp s = Some now
     \<and> signature_hash s = H (signature_string (s\<lparr>signature_timestamp := None\<rparr>))
     \<and> signature_string (s\<lparr>signature_timestamp := None\<rparr>) \<noteq> signature_string s
     \<and> fst (verify_integrity H J s) =
         (H (signature_string s) = H (signature_string (s\<lparr>signature_timestamp := None\<rparr>)))"
proof -
  let ?pre = "\<lparr>s_pk = None, signer = u_id user, signer_username = username user,
      signer_full_name = full_name user,
      signer_role = (case u_role user of Some r \<Rightarrow> role_name r | None \<Rightarrow> ''No Role''),
      signer_email = email user, password_verified_at = None, signature_type = sig_type,
      signature_purpose = purpose_text, signature_timestamp = None, signed_model = model,
      signed_record_id = record_id, signed_record_description = description,
      data_hash = H (J signed_data), signature_data = signed_data, signature_hash = [],
      s_ip_address = (case request of Some m \<Rightarrow> REMOTE_ADDR m | None \<Rightarrow> None),
      s_user_agent = (case request of
                        Some m \<Rightarrow> take 500 (case HTTP_USER_AGENT m of Some a \<Rightarrow> a | None \<Rightarrow> [])
                      | None \<Rightarrow> []),
      is_valid = True, invalidation_reason = []\<rparr>"
  let ?s = "?pre\<lparr>signature_hash := H (signature_string ?pre),
                  s_pk := Some (Suc (signature_seq d)),
                  password_verified_at := Some now, signature_timestamp := Some now\<rparr>"
  let ?d = "d\<lparr>digital_signatures := digital_signatures d @ [?s],
               signature_seq := Suc (signature_seq d)\<rparr>"
  have u: "unique_hashes (?pre\<lparr>signature_hash := H (signature_string ?pre)\<rparr>) (digital_signatures d)"
    using assms by (simp add: unique_hashes_def signature_string_def fmt_datetime_def)
  have c: "create_signature H J now user sig_type purpose_text model record_id signed_data
             description request d = Inr (?s, ?d)"
    using u
    by (simp add: create_signature_def DigitalSignature_save_def truthy_pk_def
        DigitalSignature_super_save_def Let_def)
  have h: "signature_hash ?s = H (signature_string (?s\<lparr>signature_timestamp := None\<rparr>))"
    by (simp add: signature_string_def)
  have ne: "signature_string (?s\<lparr>signature_timestamp := None\<rparr>) \<noteq> signature_string ?s"
    using signature_string_timestamp [where self = ?s and now = now] by simp
  have v: "fst (verify_integrity H J ?s) =
      (H (signature_string ?s) = H (signature_string (?s\<lparr>signature_timestamp := None\<rparr>)))"
    unfolding verify_integrity_def Let_def h by simp
  have ts: "signature_timestamp ?s = Some now" by simp
  from c ts h ne v show ?thesis by blast
qed

theorem verify_after_create_needs_collision_witness:
  "digital_signatures (db_with request0 crate0) = []
   \<and> (\<exists>s d'. create_signature (\<lambda>x. x) (\<lambda>u. ''{}'') t0 section_head ''APPROVE'' ''approval''
               ''Request'' 1 () ''Request 1'' None (db_with request0 crate0) = Inr (s, d')
         \<and> signature_timestamp s = Some t0
         \<and> signature_hash s = signature_string (s\<lparr>signature_timestamp := None\<rparr>)
         \<and> signature_string (s\<lparr>signature_timestamp := None\<rparr>) \<noteq> signature_string s
         \<and> fst (verify_integrity (\<lambda>x. x) (\<lambda>u. ''{}'') s) =
             (signature_string s = signature_string (s\<lparr>signature_timestamp := None\<rparr>)))"
  using verify_after_create_needs_collision [where d = "db_with request0 crate0"
      and H = "\<lambda>x. x" and J = "\<lambda>u. ''{}''" and signed_data = "()" and user = section_head
      and sig_type = "''APPROVE''" and model = "''Request''" and record_id = 1 and now = t0
      and purpose_text = "''approval''" and description = "''Request 1''" and request = None]
  by (simp add: db_with_def)

subsection \<open>The privilege resolver\<close>

lemma get_privilege_codenames_set:
  "set (get_privilege_codenames r d) =
     {c. \<exists>p. (role_id r, p) \<in> set (role_privileges d) \<and> p_is_active p \<and> codename p = c}"
  by (auto simp: get_privilege_codenames_def image_iff)

text \<open>
  C9. The capability set granted to a role is what \<open>Role.get_privilege_codenames\<close> reads
  from the role-privilege table: the codenames of the privileges linked to the role that
  are active. \<open>has_privilege\<close> is true for an authenticated superuser; for any other
  authenticated user it is true exactly when the user has a role and the table links that
  role to an active privilege of the given codename; it is false without a user or for an
  anonymous one. The database it hands back is the one it was given, and its answer depends
  on the store through the role-privilege table only.
\<close>

theorem has_privilege_spec:
  "has_privilege a c d =
     ((case a of
         NoUser \<Rightarrow> False
       | AnonymousUser \<Rightarrow> False
       | AuthUser u \<Rightarrow> is_superuser u \<or>
           (\<exists>r p. u_role u = Some r \<and> (role_id r, p) \<in> set (role_privileges d)
                  \<and> p_is_active p \<and> codename p = c)), d)
   \<and> (role_privileges d' = role_privileges d \<longrightarrow>
        fst (has_privilege a c d') = fst (has_privilege a c d))"
proof -
  have 1: "has_privilege a c d =
     ((case a of
         NoUser \<Rightarrow> False
       | AnonymousUser \<Rightarrow> False
       | AuthUser u \<Rightarrow> is_superuser u \<or>
           (\<exists>r p. u_role u = Some r \<and> (role_id r, p) \<in> set (role_privileges d)
                  \<and> p_is_active p \<and> codename p = c)), d)"
    by (auto simp: has_privilege_def get_privilege_codenames_set split: actor.splits option.splits)
  have 2: "fst (has_privilege a c d') = fst (has_privilege a c d)"
    if "role_privileges d' = role_privileges d"
    using that
    by (auto simp: has_privilege_def get_privilege_codenames_def split: actor.splits option.splits)
  from 1 2 show ?thesis by blast
qed

theorem has_privilege_spec_witness:
  "role_privileges (db_roles\<lparr>audit_seq := 5\<rparr>) = role_privileges db_roles
   \<and> has_privilege (AuthUser section_head) ''approve_request'' db_roles = (True, db_roles)
   \<and> fst (has_privilege (AuthUser section_head) ''approve_request'' (db_roles\<lparr>audit_seq := 5\<rparr>))"
proof -
  have h: "role_privileges (db_roles\<lparr>audit_seq := 5\<rparr>) = role_privileges db_roles" by simp
  have g: "(\<exists>r p. u_role section_head = Some r
      \<and> (role_id r, p) \<in> set (role_privileges db_roles)
                  \<and> p_is_active p \<and> codename p = ''approve_request'')"
    by (intro exI [of _ "\<lparr>role_id = 2, role_name = ''Section Head''\<rparr>"]
        exI [of _ "\<lparr>codename = ''approve_request'', p_is_active = True\<rparr>"])
      (simp add: section_head_def db_roles_def)
  note T = has_privilege_spec [where a = "AuthUser section_head" and c = "''approve_request''"
      and d = db_roles and d' = "db_roles\<lparr>audit_seq := 5\<rparr>"]
  from T [THEN conjunct1] g
  have 1: "has_privilege (AuthUser section_head) ''approve_request'' db_roles = (True, db_roles)"
    by simp
  from mp [OF T [THEN conjunct2] h] 1
  have 2: "fst (has_privilege (AuthUser section_head) ''approve_request'' (db_roles\<lparr>audit_seq := 5\<rparr>))"
    by simp
  from h 1 2 show ?thesis by blast
qed

lemma has_privilege_examples:
  "fst (has_privilege (AuthUser section_head) ''approve_request'' db_roles)"
  "\<not> fst (has_privilege (AuthUser section_head) ''allocate_storage'' db_roles)"
  "\<not> fst (has_privilege (AuthUser section_head) ''manage_users'' db_roles)"
  "\<not> fst (has_privilege (AuthUser (section_head\<lparr>u_role := None\<rparr>)) ''approve_request'' db_roles)"
  "fst (has_privilege (AuthUser (section_head\<lparr>u_role := None, is_superuser := True\<rparr>)) ''x'' db_roles)"
  "\<not> fst (has_privilege AnonymousUser ''approve_request'' db_roles)"
  "\<not> fst (has_privilege NoUser ''approve_request'' db_roles)"
  by (simp_all add: has_privilege_def get_privilege_codenames_def section_head_def db_roles_def)

section \<open>Properties of the workflow\<close>

subsection \<open>What an audit append leaves\<close>

lemma audit_then_log_audit_event:
  "audit_then (log_audit_event now usr act msg m rid sid cid did att d) d0 =
     Inr (snd (AuditTrail_insert now (new_audit_entry usr act msg m rid sid cid did att) d))"
  by (simp add: audit_then_def log_audit_event_def AuditTrail_save_def new_audit_entry_def
      split: prod.splits)


lemma AuditTrail_insert_frame [simp]:
  "requests (snd (AuditTrail_insert now e d)) = requests d"
  "crates (snd (AuditTrail_insert now e d)) = crates d"
  "storages (snd (AuditTrail_insert now e d)) = storages d"
  "sendbacks (snd (AuditTrail_insert now e d)) = sendbacks d"
  "digital_signatures (snd (AuditTrail_insert now e d)) = digital_signatures d"
  "request_documents (snd (AuditTrail_insert now e d)) = request_documents d"
  "documents (snd (AuditTrail_insert now e d)) = documents d"
  "request_seq (snd (AuditTrail_insert now e d)) = request_seq d"
  "audit_trail (snd (AuditTrail_insert now e d)) =
     audit_trail d @ [e\<lparr>a_pk := Some (Suc (audit_seq d)), action_time := Some now\<rparr>]"
  by (simp_all add: AuditTrail_insert_def Let_def)

lemmas log_defs = log_request_created_def log_request_approved_def log_request_rejected_def
  log_storage_allocated_def log_document_issued_def log_document_returned_def
  log_crate_destroyed_def

subsection \<open>The status guards of approve, reject and send back\<close>

lemma approve_request_refused:
  "requests d pk = Some r \<Longrightarrow> r_status r \<noteq> ''Pending'' \<Longrightarrow>
     status_code (fst (approve_request now req pk d)) = 400 \<and> snd (approve_request now req pk d) = d"
  by (simp add: approve_request_def serializer_errors_def)

lemma approve_request_accepted:
  "requests d pk = Some r \<Longrightarrow> r_status r = ''Pending'' \<Longrightarrow> ApproveRequestSerializer_is_valid req \<Longrightarrow>
     status_code (fst (approve_request now req pk d)) = 200 \<and>
     requests (snd (approve_request now req pk d)) pk =
       Some (r\<lparr>r_status := ''Approved'', approved_by := Some (u_id (req_user req)),
               approval_date := Some now\<rparr>)"
  by (simp add: approve_request_def Let_def log_defs audit_then_log_audit_event)

lemma reject_restore_crate_Inr:
  "crates d (r_crate r) \<noteq> None \<Longrightarrow> \<exists>d1. reject_restore_crate now req pk r d = Inr d1 \<and>
     requests d1 = requests d \<and> sendbacks d1 = sendbacks d \<and>
     digital_signatures d1 = digital_signatures d"
  by (auto simp: reject_restore_crate_def Let_def audit_then_log_audit_event)

lemma reject_request_refused:
  "requests d pk = Some r \<Longrightarrow> r_status r \<notin> set [''Pending'', ''Sent Back''] \<Longrightarrow>
     status_code (fst (reject_request now req pk d)) = 400 \<and> snd (reject_request now req pk d) = d"
  by (simp add: reject_request_def serializer_errors_def split: option.splits)

lemma reject_request_accepted:
  assumes "requests d pk = Some r" "r_status r \<in> set [''Pending'', ''Sent Back'']"
    "RejectRequestSerializer req \<noteq> None" "crates d (r_crate r) \<noteq> None"
  shows "status_code (fst (reject_request now req pk d)) = 200 \<and>
     requests (snd (reject_request now req pk d)) pk = Some (r\<lparr>r_status := ''Rejected''\<rparr>)"
proof -
  obtain reason where s: "RejectRequestSerializer req = Some reason" using assms(3) by auto
  obtain d1 where d1: "reject_restore_crate now req pk r d = Inr d1" "requests d1 = requests d"
    using reject_restore_crate_Inr [OF assms(4)] by blast
  from assms(2) have g: "\<not> r_status r \<notin> set [''Pending'', ''Sent Back'']" by simp
  show ?thesis
    unfolding reject_request_def s
    using assms(1) g d1
    by (simp add: Let_def log_defs audit_then_log_audit_event del: set_simps)
qed

lemma send_back_request_refused:
  "requests d pk = Some r \<Longrightarrow> r_status r \<notin> set [''Pending'', ''Sent Back''] \<Longrightarrow>
     status_code (fst (send_back_request now req pk d)) = 400 \<and> snd (send_back_request now req pk d) = d"
  by (simp add: send_back_request_def serializer_errors_def split: option.splits)

lemma send_back_request_accepted:
  assumes "requests d pk = Some r" "r_status r \<in> set [''Pending'', ''Sent Back'']"
    "SendBackCreateSerializer req \<noteq> None"
  shows "status_code (fst (send_back_request now req pk d)) = 200 \<and>
     requests (snd (send_back_request now req pk d)) pk = Some (r\<lparr>r_status := ''Sent Back''\<rparr>)"
proof -
  obtain reason where s: "SendBackCreateSerializer req = Some reason" using assms(3) by auto
  from assms(2) have g: "\<not> r_status r \<notin> set [''Pending'', ''Sent Back'']" by simp
  show ?thesis
    unfolding send_back_request_def s
    using assms(1) g
    by (simp add: Let_def audit_then_log_audit_event del: set_simps)
qed

text \<open>
  C3, as the claim states it, fails: a request in status \<open>Sent Back\<close> cannot be approved.
  \<open>approve_request\<close> answers 400 and leaves the database as it was.
\<close>

theorem approve_sent_back_refused:
  "approve_request t0 http0 1 (db_with (request0\<lparr>r_status := ''Sent Back''\<rparr>) crate0) =
     (Response 400 [(''error'', PStr ''Request is not in pending state (current status: Sent Back)'')],
      db_with (request0\<lparr>r_status := ''Sent Back''\<rparr>) crate0)"
  by (simp add: approve_request_def db_with_def request0_def ApproveRequestSerializer_is_valid_def
      CharField_def py_strip_def is_space_def http0_def)

text \<open>
  C3, amended. Approve goes through exactly from \<open>Pending\<close>; Reject and SendBack go through
  exactly from \<open>Pending\<close> or \<open>Sent Back\<close> (given valid data and, for Reject, the request's
  crate in the store). In every other status each of the three answers 400 and the database
  is unchanged.
\<close>

theorem approve_reject_send_back_guards:
  assumes "requests d pk = Some r" and "crates d (r_crate r) \<noteq> None"
  shows "(r_status r = ''Pending'' \<and> ApproveRequestSerializer_is_valid req \<longrightarrow>
            status_code (fst (approve_request now req pk d)) = 200 \<and>
            map_option r_status (requests (snd (approve_request now req pk d)) pk) = Some ''Approved'')
       \<and> (r_status r \<noteq> ''Pending'' \<longrightarrow>
            status_code (fst (approve_request now req pk d)) = 400 \<and>
            snd (approve_request now req pk d) = d)
       \<and> (r_status r \<in> set [''Pending'', ''Sent Back'']
           \<and> RejectRequestSerializer req \<noteq> None \<longrightarrow>
            status_code (fst (reject_request now req pk d)) = 200 \<and>
            map_option r_status (requests (snd (reject_request now req pk d)) pk) = Some ''Rejected'')
       \<and> (r_status r \<notin> set [''Pending'', ''Sent Back''] \<longrightarrow>
            status_code (fst (reject_request now req pk d)) = 400 \<and>
            snd (reject_request now req pk d) = d)
       \<and> (r_status r \<in> set [''Pending'', ''Sent Back'']
           \<and> SendBackCreateSerializer req \<noteq> None \<longrightarrow>
            status_code (fst (send_back_request now req pk d)) = 200 \<and>
            map_option r_status (requests (snd (send_back_request now req pk d)) pk) = Some ''Sent Back'')
       \<and> (r_status r \<notin> set [''Pending'', ''Sent Back''] \<longrightarrow>
            status_code (fst (send_back_request now req pk d)) = 400 \<and>
            snd (send_back_request now req pk d) = d)"
  using approve_request_accepted [OF assms(1), of req now]
    approve_request_refused [OF assms(1), of now req]
    reject_request_accepted [OF assms(1) _ _ assms(2), of req now]
    reject_request_refused [OF assms(1), of now req]
    send_back_request_accepted [OF assms(1), of req now]
    send_back_request_refused [OF assms(1), of now req]
  by simp

lemma http0_valid:
  "ApproveRequestSerializer_is_valid http0"
  "RejectRequestSerializer http0 = Some ''wrong crate chosen''"
  "SendBackCreateSerializer http0 = Some ''wrong crate chosen''"
  by (simp_all add: ApproveRequestSerializer_is_valid_def RejectRequestSerializer_def
      SendBackCreateSerializer_def CharField_def py_strip_def is_space_def http0_def)

theorem approve_reject_send_back_guards_witness:
  "requests (db_with request0 crate0) 1 = Some request0
   \<and> crates (db_with request0 crate0) (r_crate request0) \<noteq> None
   \<and> r_status request0 = ''Pending''
   \<and> status_code (fst (approve_request t0 http0 1 (db_with request0 crate0))) = 200
   \<and> status_code (fst (reject_request t0 http0 1 (db_with request0 crate0))) = 200
   \<and> status_code (fst (send_back_request t0 http0 1 (db_with request0 crate0))) = 200"
proof -
  have a: "requests (db_with request0 crate0) 1 = Some request0" by (simp add: db_with_def)
  have b: "crates (db_with request0 crate0) (r_crate request0) \<noteq> None"
    by (simp add: db_with_def request0_def)
  have c: "r_status request0 = ''Pending''" by (simp add: request0_def)
  show ?thesis
    using approve_reject_send_back_guards [OF a b, of http0 t0] a b c http0_valid by simp
qed

subsection \<open>Approving twice\<close>

lemma approve_request_effect:
  assumes "requests d pk = Some r" "r_status r = ''Pending''" "ApproveRequestSerializer_is_valid req"
  shows "approve_request now req pk d =
     (Response 200 [(''message'', PStr (request_type r @ '' request approved successfully'')),
                    (''request_id'', PNat pk), (''status'', PStr ''Approved'')],
      snd (AuditTrail_insert now
             (new_audit_entry (Some (req_user req)) ''Approved''
                (request_type r @ '' request #'' @ str_nat pk @ '' approved by '' @ full_name (req_user req))
                (Some (req_meta req)) (Some pk) None (Some (r_crate r)) None None)
             (d\<lparr>requests := (requests d)(pk \<mapsto>
                  r\<lparr>r_status := ''Approved'', approved_by := Some (u_id (req_user req)),
                    approval_date := Some now\<rparr>)\<rparr>)))"
  using assms by (simp add: approve_request_def Let_def log_defs audit_then_log_audit_event)

text \<open>
  C4, as the claim states it, fails: approving a pending request writes one audit entry but
  no signature record, so there is no Signature/Audit pair. After the approval the signature
  table is still empty.
\<close>

theorem approve_creates_no_signature:
  "status_code (fst (approve_request t0 http0 1 (db_with request0 crate0))) = 200
   \<and> length (audit_trail (snd (approve_request t0 http0 1 (db_with request0 crate0)))) = 1
   \<and> digital_signatures (snd (approve_request t0 http0 1 (db_with request0 crate0))) = []"
proof -
  have a: "requests (db_with request0 crate0) 1 = Some request0" by (simp add: db_with_def)
  have c: "r_status request0 = ''Pending''" by (simp add: request0_def)
  show ?thesis
    unfolding approve_request_effect [OF a c http0_valid(1)]
    by (simp add: db_with_def)
qed

text \<open>
  C4, amended. For a request in status \<open>Pending\<close>, approving twice gives one state change
  and one audit entry: the first call answers 200, sets the status to \<open>Approved\<close> and
  appends exactly one audit entry, of action \<open>Approved\<close>, for this request; no signature
  record is written; the second call answers 400 and leaves the database exactly as the
  first call left it.
\<close>

theorem approve_twice:
  assumes "requests d pk = Some r" and "r_status r = ''Pending''"
    and "ApproveRequestSerializer_is_valid req"
  shows "status_code (fst (approve_request now req pk d)) = 200
       \<and> map_option r_status (requests (snd (approve_request now req pk d)) pk) = Some ''Approved''
       \<and> (\<exists>e. audit_trail (snd (approve_request now req pk d)) = audit_trail d @ [e]
              \<and> action e = ''Approved'' \<and> a_request_id e = Some pk)
       \<and> digital_signatures (snd (approve_request now req pk d)) = digital_signatures d
       \<and> status_code (fst (approve_request now' req' pk (snd (approve_request now req pk d)))) = 400
       \<and> snd (approve_request now' req' pk (snd (approve_request now req pk d)))
           = snd (approve_request now req pk d)"
proof -
  let ?d1 = "snd (approve_request now req pk d)"
  have first: "status_code (fst (approve_request now req pk d)) = 200"
      "requests ?d1 pk = Some (r\<lparr>r_status := ''Approved'', approved_by := Some (u_id (req_user req)),
               approval_date := Some now\<rparr>)"
    using approve_request_accepted [OF assms] by simp_all
  have tr: "\<exists>e. audit_trail ?d1 = audit_trail d @ [e] \<and> action e = ''Approved''
      \<and> a_request_id e = Some pk"
    by (simp add: approve_request_effect [OF assms] new_audit_entry_def)
  have sg: "digital_signatures ?d1 = digital_signatures d"
    by (simp add: approve_request_effect [OF assms])
  have second: "status_code (fst (approve_request now' req' pk ?d1)) = 400
      \<and> snd (approve_request now' req' pk ?d1) = ?d1"
    by (rule approve_request_refused [OF first(2)]) simp
  from first tr sg second show ?thesis by simp
qed

theorem approve_twice_witness:
  "requests (db_with request0 crate0) 1 = Some request0
   \<and> r_status request0 = ''Pending'' \<and> ApproveRequestSerializer_is_valid http0
   \<and> status_code (fst (approve_request t0 http0 1 (db_with request0 crate0))) = 200
   \<and> status_code (fst (approve_request t1 http0 1
        (snd (approve_request t0 http0 1 (db_with request0 crate0))))) = 400"
proof -
  have a: "requests (db_with request0 crate0) 1 = Some request0" by (simp add: db_with_def)
  have c: "r_status request0 = ''Pending''" by (simp add: request0_def)
  show ?thesis
    using approve_twice [OF a c http0_valid(1), of t0 t1 http0] a c http0_valid(1) by simp
qed

subsection \<open>Confirming a destruction\<close>

text \<open>
  C7. For a Destruction request whose crate is in the store, \<open>confirm_destruction\<close> goes
  through exactly when the request is \<open>Approved\<close>: then the answer is 200, the crate's status
  becomes \<open>Destroyed\<close> with every other field of the crate, its storage reference among
  them, as before, and the request becomes \<open>Completed\<close>. In any other status the answer is
  400 and the database is unchanged.
\<close>

theorem confirm_destruction_spec:
  assumes "requests d pk = Some r" and "request_type r = ''Destruction''"
    and "crates d (r_crate r) = Some c"
  shows "(r_status r = ''Approved'' \<longrightarrow>
            status_code (fst (confirm_destruction now req pk d)) = 200
          \<and> crates (snd (confirm_destruction now req pk d)) (r_crate r) = Some (c\<lparr>c_status := ''Destroyed''\<rparr>)
          \<and> map_option c_storage (crates (snd (confirm_destruction now req pk d)) (r_crate r))
              = Some (c_storage c)
          \<and> requests (snd (confirm_destruction now req pk d)) pk = Some (r\<lparr>r_status := ''Completed''\<rparr>))
       \<and> (r_status r \<noteq> ''Approved'' \<longrightarrow>
            fst (confirm_destruction now req pk d) =
              Response 400 [(''error'', PStr ''Request must be approved before destruction'')]
          \<and> snd (confirm_destruction now req pk d) = d)"
  using assms
  by (simp add: confirm_destruction_def Let_def log_defs audit_then_log_audit_event)

theorem confirm_destruction_spec_witness:
  "requests (db_with (request0\<lparr>request_type := ''Destruction'', r_status := ''Approved''\<rparr>) crate0) 1
     = Some (request0\<lparr>request_type := ''Destruction'', r_status := ''Approved''\<rparr>)
   \<and> status_code (fst (confirm_destruction t0 http0 1
        (db_with (request0\<lparr>request_type := ''Destruction'', r_status := ''Approved''\<rparr>) crate0))) = 200
   \<and> map_option c_storage (crates (snd (confirm_destruction t0 http0 1
        (db_with (request0\<lparr>request_type := ''Destruction'', r_status := ''Approved''\<rparr>) crate0))) 1)
       = Some (Some 3)"
proof -
  let ?r = "request0\<lparr>request_type := ''Destruction'', r_status := ''Approved''\<rparr>"
  have a: "requests (db_with ?r crate0) 1 = Some ?r" by (simp add: db_with_def)
  have b: "request_type ?r = ''Destruction''" by simp
  have c: "crates (db_with ?r crate0) (r_crate ?r) = Some crate0"
    by (simp add: db_with_def request0_def)
  have e: "r_crate ?r = 1" "c_storage crate0 = Some 3" "r_status ?r = ''Approved''"
    by (simp_all add: request0_def crate0_def)
  show ?thesis
    using confirm_destruction_spec [OF a b c, of t0 http0] a e by simp
qed

subsection \<open>What a rejection touches\<close>

lemma reject_restore_crate_untouched:
  "\<not> (request_type r = ''Withdrawal'' \<and> (\<exists>c. crates d (r_crate r) = Some c
      \<and> c_status c = ''Withdrawn''))
   \<Longrightarrow> reject_restore_crate now req pk r d = Inr d \<or>
       reject_restore_crate now req pk r d = Inl (DoesNotExist, d)"
  by (auto simp: reject_restore_crate_def split: option.splits)

lemma reject_request_crates_untouched:
  assumes "requests d pk = Some r"
    and "\<not> (request_type r = ''Withdrawal'' \<and> (\<exists>c. crates d (r_crate r) = Some c
        \<and> c_status c = ''Withdrawn''))"
  shows "crates (snd (reject_request now req pk d)) = crates d"
proof -
  from reject_restore_crate_untouched [OF assms(2), of now req pk]
  show ?thesis
  proof
    assume "reject_restore_crate now req pk r d = Inr d"
    then show ?thesis using assms(1)
      by (simp add: reject_request_def Let_def log_defs audit_then_log_audit_event
          split: option.splits)
  next
    assume "reject_restore_crate now req pk r d = Inl (DoesNotExist, d)"
    then show ?thesis using assms(1)
      by (simp add: reject_request_def split: option.splits)
  qed
qed

lemma reject_request_effect:
  assumes "requests d pk = Some r" and "request_type r \<noteq> ''Withdrawal''"
    and "r_status r \<in> set [''Pending'', ''Sent Back'']" and "RejectRequestSerializer req = Some reason"
  shows "snd (reject_request now req pk d) =
     snd (AuditTrail_insert now
            (new_audit_entry (Some (req_user req)) ''Rejected''
               (request_type r @ '' request #'' @ str_nat pk @ '' rejected. Reason: '' @ reason)
               (Some (req_meta req)) (Some pk) None (Some (r_crate r)) None None)
            (d\<lparr>requests := (requests d)(pk \<mapsto> r\<lparr>r_status := ''Rejected''\<rparr>),
               sendbacks := sendbacks d @
                 [\<lparr>sb_request = pk, sb_reason = reason, sb_created_by = u_id (req_user req),
                   sendback_type = ''Change Request''\<rparr>]\<rparr>))"
proof -
  have rc: "reject_restore_crate now req pk r d = Inr d"
    using assms(2) by (simp add: reject_restore_crate_def)
  from assms(3) have g: "\<not> r_status r \<notin> set [''Pending'', ''Sent Back'']" by simp
  show ?thesis
    unfolding reject_request_def assms(4)
    using assms(1) g rc
    by (simp add: Let_def log_defs audit_then_log_audit_event del: set_simps)
qed

text \<open>
  C10. A successful rejection of a Storage or Destruction request changes, in the whole
  database, only this: the request's status becomes \<open>Rejected\<close>, one SendBack row and one
  audit entry (action \<open>Rejected\<close>) are appended. The crate table, and with it every field of
  the request's crate, is as before. For any request at all, a call of \<open>reject_request\<close>
  leaves the crate table as it was unless the request is a Withdrawal whose crate is
  \<open>Withdrawn\<close>.
\<close>

theorem reject_leaves_crate:
  assumes "requests d pk = Some r"
  shows "(request_type r \<in> set [''Storage'', ''Destruction'']
            \<and> r_status r \<in> set [''Pending'', ''Sent Back'']
                \<and> RejectRequestSerializer req = Some reason \<longrightarrow>
           status_code (fst (reject_request now req pk d)) = 200
         \<and> crates (snd (reject_request now req pk d)) = crates d
         \<and> storages (snd (reject_request now req pk d)) = storages d
         \<and> digital_signatures (snd (reject_request now req pk d)) = digital_signatures d
         \<and> requests (snd (reject_request now req pk d)) = (requests d)(pk \<mapsto> r\<lparr>r_status := ''Rejected''\<rparr>)
         \<and> sendbacks (snd (reject_request now req pk d)) = sendbacks d @
             [\<lparr>sb_request = pk, sb_reason = reason, sb_created_by = u_id (req_user req),
               sendback_type = ''Change Request''\<rparr>]
         \<and> (\<exists>e. audit_trail (snd (reject_request now req pk d)) = audit_trail d @ [e]
                \<and> action e = ''Rejected'' \<and> a_request_id e = Some pk))
       \<and> (crates (snd (reject_request now req pk d)) \<noteq> crates d \<longrightarrow>
            request_type r = ''Withdrawal''
          \<and> (\<exists>c. crates d (r_crate r) = Some c \<and> c_status c = ''Withdrawn''))"
proof -
  have first: "status_code (fst (reject_request now req pk d)) = 200
         \<and> crates (snd (reject_request now req pk d)) = crates d
         \<and> storages (snd (reject_request now req pk d)) = storages d
         \<and> digital_signatures (snd (reject_request now req pk d)) = digital_signatures d
         \<and> requests (snd (reject_request now req pk d)) = (requests d)(pk \<mapsto> r\<lparr>r_status := ''Rejected''\<rparr>)
         \<and> sendbacks (snd (reject_request now req pk d)) = sendbacks d @
             [\<lparr>sb_request = pk, sb_reason = reason, sb_created_by = u_id (req_user req),
               sendback_type = ''Change Request''\<rparr>]
         \<and> (\<exists>e. audit_trail (snd (reject_request now req pk d)) = audit_trail d @ [e]
                \<and> action e = ''Rejected'' \<and> a_request_id e = Some pk)"
    if t: "request_type r \<in> set [''Storage'', ''Destruction'']"
      and s: "r_status r \<in> set [''Pending'', ''Sent Back'']"
      and v: "RejectRequestSerializer req = Some reason"
  proof -
    from t have nw: "request_type r \<noteq> ''Withdrawal''" by auto
    have rc: "reject_restore_crate now req pk r d = Inr d"
      using nw by (simp add: reject_restore_crate_def)
    from s have g: "\<not> r_status r \<notin> set [''Pending'', ''Sent Back'']" by simp
    have ok: "status_code (fst (reject_request now req pk d)) = 200"
      unfolding reject_request_def v using assms g rc
      by (simp add: Let_def log_defs audit_then_log_audit_event del: set_simps)
    show ?thesis
      using ok by (simp add: reject_request_effect [OF assms nw s v] new_audit_entry_def)
  qed
  have second: "request_type r = ''Withdrawal''
          \<and> (\<exists>c. crates d (r_crate r) = Some c \<and> c_status c = ''Withdrawn'')"
    if "crates (snd (reject_request now req pk d)) \<noteq> crates d"
    using that reject_request_crates_untouched [OF assms, of now req] by blast
  from first second show ?thesis by blast
qed

theorem reject_leaves_crate_witness:
  "requests (db_with request0 crate0) 1 = Some request0
   \<and> request_type request0 \<in> set [''Storage'', ''Destruction'']
   \<and> status_code (fst (reject_request t0 http0 1 (db_with request0 crate0))) = 200
   \<and> crates (snd (reject_request t0 http0 1 (db_with request0 crate0))) = crates (db_with request0 crate0)"
proof -
  have a: "requests (db_with request0 crate0) 1 = Some request0" by (simp add: db_with_def)
  have t: "request_type request0 \<in> set [''Storage'', ''Destruction'']"
    "r_status request0 \<in> set [''Pending'', ''Sent Back'']"
    by (simp_all add: request0_def)
  show ?thesis
    using reject_leaves_crate [OF a, of http0 "''wrong crate chosen''" t0] a t http0_valid(2)
    by (simp del: set_simps)
qed

subsection \<open>Withdrawal requests and the crate's status\<close>







subsection \<open>What a transition writes\<close>

lemma audit_then_Inl: "audit_then (Inl e) d = Inl (e, d)"
  by (simp add: audit_then_def)

lemma approve_request_commits:
  assumes "requests d pk = Some r" "crates d (r_crate r) = Some c"
  shows "ApproveRequestSerializer_is_valid req \<and> r_status r = ''Pending'' \<longrightarrow>
       status_code (fst (approve_request now req pk d)) = 200
       \<and> requests (snd (approve_request now req pk d)) = (requests d)(pk \<mapsto> r\<lparr>r_status := ''Approved'', approved_by := Some (u_id (req_user req)), approval_date := Some now\<rparr>)
       \<and> crates (snd (approve_request now req pk d)) = crates d
       \<and> sendbacks (snd (approve_request now req pk d)) = sendbacks d
       \<and> (\<exists>e. audit_trail (snd (approve_request now req pk d)) = audit_trail d @ [e]
           \<and> action e = ''Approved'' \<and> a_user e = Some (u_id (req_user req))
           \<and> a_request_id e = Some pk \<and> a_crate_id e = Some (r_crate r)
           \<and> action_time e = Some now)"
  using assms
  by (auto simp: approve_request_def Let_def log_defs audit_then_log_audit_event new_audit_entry_def serializer_errors_def split: option.splits)

lemma approve_request_refuses:
  assumes "requests d pk = Some r" "crates d (r_crate r) = Some c"
  shows "\<not> (ApproveRequestSerializer_is_valid req \<and> r_status r = ''Pending'') \<longrightarrow>
       status_code (fst (approve_request now req pk d)) \<in> {400}
           \<and> snd (approve_request now req pk d) = d"
  using assms
  by (auto simp: approve_request_def Let_def log_defs audit_then_log_audit_event new_audit_entry_def serializer_errors_def split: option.splits)

lemma approve_request_signatures:
  "digital_signatures (snd (approve_request now req pk d)) = digital_signatures d"
  by (auto simp: approve_request_def Let_def log_defs audit_then_log_audit_event new_audit_entry_def serializer_errors_def split: option.splits sum.splits)

lemma reject_request_commits:
  assumes "requests d pk = Some r" "crates d (r_crate r) = Some c"
  shows "RejectRequestSerializer req = Some reason \<and> (r_status r = ''Pending''
      \<or> r_status r = ''Sent Back'') \<longrightarrow>
       status_code (fst (reject_request now req pk d)) = 200
       \<and> requests (snd (reject_request now req pk d)) = (requests d)(pk \<mapsto> r\<lparr>r_status := ''Rejected''\<rparr>)
       \<and> crates (snd (reject_request now req pk d)) = (if request_type r = ''Withdrawal''
           \<and> c_status c = ''Withdrawn'' then (crates d)(r_crate r \<mapsto> c\<lparr>c_status := ''Active''\<rparr>) else crates d)
       \<and> sendbacks (snd (reject_request now req pk d)) = sendbacks d @ [\<lparr>sb_request = pk, sb_reason = reason, sb_created_by = u_id (req_user req), sendback_type = ''Change Request''\<rparr>]
       \<and> (request_type r = ''Withdrawal'' \<and> c_status c = ''Withdrawn'' \<longrightarrow>
           (\<exists>u e. audit_trail (snd (reject_request now req pk d)) = audit_trail d @ [u, e]
           \<and> action u = ''Updated'' \<and> a_request_id u = Some pk
           \<and> a_crate_id u = Some (r_crate r) \<and> action e = ''Rejected''
           \<and> a_user e = Some (u_id (req_user req)) \<and> a_request_id e = Some pk
           \<and> a_crate_id e = Some (r_crate r) \<and> action_time e = Some now))
       \<and> (\<not> (request_type r = ''Withdrawal'' \<and> c_status c = ''Withdrawn'') \<longrightarrow>
           (\<exists>e. audit_trail (snd (reject_request now req pk d)) = audit_trail d @ [e]
           \<and> action e = ''Rejected'' \<and> a_user e = Some (u_id (req_user req))
           \<and> a_request_id e = Some pk \<and> a_crate_id e = Some (r_crate r)
           \<and> action_time e = Some now))"
  using assms
  by (auto simp: reject_request_def Let_def log_defs audit_then_log_audit_event new_audit_entry_def serializer_errors_def reject_restore_crate_def split: option.splits)

lemma reject_request_refuses:
  assumes "requests d pk = Some r" "crates d (r_crate r) = Some c"
  shows "RejectRequestSerializer req = None \<or> \<not> (r_status r = ''Pending''
      \<or> r_status r = ''Sent Back'') \<longrightarrow>
       status_code (fst (reject_request now req pk d)) \<in> {400}
           \<and> snd (reject_request now req pk d) = d"
  using assms
  by (auto simp: reject_request_def Let_def log_defs audit_then_log_audit_event new_audit_entry_def serializer_errors_def split: option.splits)

lemma reject_request_signatures:
  "digital_signatures (snd (reject_request now req pk d)) = digital_signatures d"
  by (auto simp: reject_request_def Let_def log_defs audit_then_log_audit_event new_audit_entry_def serializer_errors_def reject_restore_crate_def split: option.splits sum.splits)

lemma send_back_request_commits:
  assumes "requests d pk = Some r" "crates d (r_crate r) = Some c"
  shows "SendBackCreateSerializer req = Some reason \<and> (r_status r = ''Pending''
      \<or> r_status r = ''Sent Back'') \<longrightarrow>
       status_code (fst (send_back_request now req pk d)) = 200
       \<and> requests (snd (send_back_request now req pk d)) = (requests d)(pk \<mapsto> r\<lparr>r_status := ''Sent Back''\<rparr>)
       \<and> crates (snd (send_back_request now req pk d)) = crates d
       \<and> sendbacks (snd (send_back_request now req pk d)) = sendbacks d @ [\<lparr>sb_request = pk, sb_reason = reason, sb_created_by = u_id (req_user req), sendback_type = ''Change Request''\<rparr>]
       \<and> (\<exists>e. audit_trail (snd (send_back_request now req pk d)) = audit_trail d @ [e]
           \<and> action e = ''Sent Back'' \<and> a_user e = Some (u_id (req_user req))
           \<and> a_request_id e = Some pk \<and> a_crate_id e = Some (r_crate r)
           \<and> action_time e = Some now)"
  using assms
  by (auto simp: send_back_request_def Let_def log_defs audit_then_log_audit_event new_audit_entry_def serializer_errors_def split: option.splits)

lemma send_back_request_refuses:
  assumes "requests d pk = Some r" "crates d (r_crate r) = Some c"
  shows "SendBackCreateSerializer req = None \<or> \<not> (r_status r = ''Pending''
      \<or> r_status r = ''Sent Back'') \<longrightarrow>
       status_code (fst (send_back_request now req pk d)) \<in> {400}
           \<and> snd (send_back_request now req pk d) = d"
  using assms
  by (auto simp: send_back_request_def Let_def log_defs audit_then_log_audit_event new_audit_entry_def serializer_errors_def split: option.splits)

lemma send_back_request_signatures:
  "digital_signatures (snd (send_back_request now req pk d)) = digital_signatures d"
  by (auto simp: send_back_request_def Let_def log_defs audit_then_log_audit_event new_audit_entry_def serializer_errors_def split: option.splits sum.splits)

lemma allocate_storage_commits:
  assumes "requests d pk = Some r" "crates d (r_crate r) = Some c"
  shows "AllocateStorageSerializer req = Some sid \<and> r_status r = ''Approved''
      \<and> storages d sid = Some st \<longrightarrow>
       status_code (fst (allocate_storage now req pk d)) = 200
       \<and> requests (snd (allocate_storage now req pk d)) = (requests d)(pk \<mapsto> r\<lparr>allocation_date := Some now, allocated_by := Some (u_id (req_user req)), r_status := ''Completed''\<rparr>)
       \<and> crates (snd (allocate_storage now req pk d)) = (crates d)(r_crate r \<mapsto> c\<lparr>c_storage := Some sid\<rparr>)
       \<and> sendbacks (snd (allocate_storage now req pk d)) = sendbacks d
       \<and> (\<exists>e. audit_trail (snd (allocate_storage now req pk d)) = audit_trail d @ [e]
           \<and> action e = ''Allocated'' \<and> a_user e = Some (u_id (req_user req))
           \<and> a_request_id e = Some pk \<and> a_crate_id e = Some (r_crate r)
           \<and> a_storage_id e = Some (st_id st) \<and> action_time e = Some now)"
  using assms
  by (auto simp: allocate_storage_def Let_def log_defs audit_then_log_audit_event new_audit_entry_def serializer_errors_def split: option.splits)

lemma allocate_storage_refuses:
  assumes "requests d pk = Some r" "crates d (r_crate r) = Some c"
  shows "AllocateStorageSerializer req = None \<or> r_status r \<noteq> ''Approved''
      \<or> (\<exists>sid'. AllocateStorageSerializer req = Some sid'
      \<and> storages d sid' = None) \<longrightarrow>
       status_code (fst (allocate_storage now req pk d)) \<in> {400, 404}
           \<and> snd (allocate_storage now req pk d) = d"
  using assms
  by (auto simp: allocate_storage_def Let_def log_defs audit_then_log_audit_event new_audit_entry_def serializer_errors_def split: option.splits)

lemma allocate_storage_signatures:
  "digital_signatures (snd (allocate_storage now req pk d)) = digital_signatures d"
  by (auto simp: allocate_storage_def Let_def log_defs audit_then_log_audit_event new_audit_entry_def serializer_errors_def split: option.splits sum.splits)

lemma issue_documents_commits:
  assumes "requests d pk = Some r" "crates d (r_crate r) = Some c"
  shows "ApproveRequestSerializer_is_valid req \<and> request_type r = ''Withdrawal''
      \<and> r_status r = ''Approved'' \<and> withdrawn_by r \<noteq> None \<longrightarrow>
       status_code (fst (issue_documents now req pk d)) = 200
       \<and> requests (snd (issue_documents now req pk d)) = (requests d)(pk \<mapsto> r\<lparr>r_status := ''Issued'', issue_date := Some now, issued_by := Some (u_id (req_user req))\<rparr>)
       \<and> crates (snd (issue_documents now req pk d)) = (crates d)(r_crate r \<mapsto> c\<lparr>c_status := ''Withdrawn''\<rparr>)
       \<and> sendbacks (snd (issue_documents now req pk d)) = sendbacks d
       \<and> (\<exists>e. audit_trail (snd (issue_documents now req pk d)) = audit_trail d @ [e]
           \<and> action e = ''Issued'' \<and> a_user e = Some (u_id (req_user req))
           \<and> a_request_id e = Some pk \<and> a_crate_id e = Some (r_crate r)
           \<and> action_time e = Some now)"
  using assms
  by (auto simp: issue_documents_def Let_def log_defs audit_then_log_audit_event new_audit_entry_def serializer_errors_def split: option.splits)

lemma issue_documents_refuses:
  assumes "requests d pk = Some r" "crates d (r_crate r) = Some c"
  shows "\<not> (ApproveRequestSerializer_is_valid req \<and> request_type r = ''Withdrawal''
      \<and> r_status r = ''Approved'') \<longrightarrow>
       status_code (fst (issue_documents now req pk d)) \<in> {400}
           \<and> snd (issue_documents now req pk d) = d"
  using assms
  by (auto simp: issue_documents_def Let_def log_defs audit_then_log_audit_event new_audit_entry_def serializer_errors_def split: option.splits)

lemma issue_documents_signatures:
  "digital_signatures (snd (issue_documents now req pk d)) = digital_signatures d"
  by (auto simp: issue_documents_def Let_def log_defs audit_then_log_audit_event new_audit_entry_def serializer_errors_def audit_then_Inl split: option.splits sum.splits)

lemma return_documents_commits:
  assumes "requests d pk = Some r" "crates d (r_crate r) = Some c"
  shows "ReturnDocumentsSerializer req = Some (sid, note) \<and> request_type r = ''Withdrawal''
      \<and> r_status r = ''Issued'' \<and> storages d sid = Some st
      \<and> (\<forall>s0. c_storage c = Some s0 \<longrightarrow>
      storages d s0 \<noteq> None) \<longrightarrow>
       status_code (fst (return_documents now req pk d)) = 200
       \<and> requests (snd (return_documents now req pk d)) = (requests d)(pk \<mapsto> r\<lparr>r_status := ''Returned'', return_date := Some now\<rparr>)
       \<and> crates (snd (return_documents now req pk d)) = (crates d)(r_crate r \<mapsto> c\<lparr>c_status := ''Active'', c_storage := Some sid\<rparr>)
       \<and> sendbacks (snd (return_documents now req pk d)) = (if note = None
           \<or> note = Some [] then sendbacks d else sendbacks d @ [\<lparr>sb_request = pk, sb_reason = the note, sb_created_by = u_id (req_user req), sendback_type = ''Return Note''\<rparr>])
       \<and> (\<exists>e a. audit_trail (snd (return_documents now req pk d)) = audit_trail d @ [e, a]
           \<and> action e = ''Returned'' \<and> a_user e = Some (u_id (req_user req))
           \<and> a_request_id e = Some pk \<and> a_crate_id e = Some (r_crate r)
           \<and> action_time e = Some now \<and> action a = ''Allocated''
           \<and> a_storage_id a = Some (st_id st) \<and> a_crate_id a = Some (r_crate r))"
  using assms
  by (auto simp: return_documents_def Let_def log_defs audit_then_log_audit_event new_audit_entry_def serializer_errors_def old_location_def split: option.splits)

lemma return_documents_refuses:
  assumes "requests d pk = Some r" "crates d (r_crate r) = Some c"
  shows "ReturnDocumentsSerializer req = None \<or> request_type r \<noteq> ''Withdrawal''
      \<or> r_status r \<noteq> ''Issued''
      \<or> (\<exists>sid' note'. ReturnDocumentsSerializer req = Some (sid', note')
      \<and> storages d sid' = None) \<longrightarrow>
       status_code (fst (return_documents now req pk d)) \<in> {400, 404}
           \<and> snd (return_documents now req pk d) = d"
  using assms
  by (auto simp: return_documents_def Let_def log_defs audit_then_log_audit_event new_audit_entry_def serializer_errors_def split: option.splits)

lemma return_documents_signatures:
  "digital_signatures (snd (return_documents now req pk d)) = digital_signatures d"
  by (auto simp: return_documents_def Let_def log_defs audit_then_log_audit_event new_audit_entry_def serializer_errors_def old_location_def split: option.splits sum.splits)

lemma confirm_destruction_commits:
  assumes "requests d pk = Some r" "crates d (r_crate r) = Some c"
  shows "request_type r = ''Destruction'' \<and> r_status r = ''Approved'' \<longrightarrow>
       status_code (fst (confirm_destruction now req pk d)) = 200
       \<and> requests (snd (confirm_destruction now req pk d)) = (requests d)(pk \<mapsto> r\<lparr>r_status := ''Completed''\<rparr>)
       \<and> crates (snd (confirm_destruction now req pk d)) = (crates d)(r_crate r \<mapsto> c\<lparr>c_status := ''Destroyed''\<rparr>)
       \<and> sendbacks (snd (confirm_destruction now req pk d)) = sendbacks d
       \<and> (\<exists>e. audit_trail (snd (confirm_destruction now req pk d)) = audit_trail d @ [e]
           \<and> action e = ''Deleted'' \<and> a_user e = Some (u_id (req_user req))
           \<and> a_request_id e = None \<and> a_crate_id e = Some (r_crate r)
           \<and> action_time e = Some now)"
  using assms
  by (auto simp: confirm_destruction_def Let_def log_defs audit_then_log_audit_event new_audit_entry_def serializer_errors_def split: option.splits)

lemma confirm_destruction_refuses:
  assumes "requests d pk = Some r" "crates d (r_crate r) = Some c"
  shows "\<not> (request_type r = ''Destruction'' \<and> r_status r = ''Approved'') \<longrightarrow>
       status_code (fst (confirm_destruction now req pk d)) \<in> {400}
           \<and> snd (confirm_destruction now req pk d) = d"
  using assms
  by (auto simp: confirm_destruction_def Let_def log_defs audit_then_log_audit_event new_audit_entry_def serializer_errors_def split: option.splits)

lemma confirm_destruction_signatures:
  "digital_signatures (snd (confirm_destruction now req pk d)) = digital_signatures d"
  by (auto simp: confirm_destruction_def Let_def log_defs audit_then_log_audit_event new_audit_entry_def serializer_errors_def split: option.splits sum.splits)
lemma http0_storage: "AllocateStorageSerializer http0 = Some 3"
  by (simp add: AllocateStorageSerializer_def CharField_def py_strip_def is_space_def http0_def)

text \<open>
  \<open>issue_documents\<close> saves the request and the crate before it logs, outside any
  transaction. When the request has lost its requester (\<open>withdrawn_by\<close> is \<open>None\<close>) the
  logging raises: the answer is 500, the request is \<open>Issued\<close>, the crate \<open>Withdrawn\<close>, and
  no audit entry was written.
\<close>

lemma issue_documents_requester_missing:
  assumes "requests d pk = Some r" "crates d (r_crate r) = Some c"
    and "ApproveRequestSerializer_is_valid req" "request_type r = ''Withdrawal''"
    and "r_status r = ''Approved''" "withdrawn_by r = None"
  shows "issue_documents now req pk d =
     (Response 500 [],
      d\<lparr>requests := (requests d)(pk \<mapsto> r\<lparr>r_status := ''Issued'', issue_date := Some now,
                                        issued_by := Some (u_id (req_user req))\<rparr>),
        crates := (crates d)(r_crate r \<mapsto> c\<lparr>c_status := ''Withdrawn''\<rparr>)\<rparr>)"
  using assms
  by (simp add: issue_documents_def Let_def log_document_issued_def audit_then_Inl server_error_def)

text \<open>
  C5, as the claim states it, fails: a transition changes the state and appends its audit
  entry without any signature record. Allocating storage for an approved request completes
  the request, gives the crate its location and writes one audit entry, and the signature
  table is still empty.
\<close>

theorem allocate_without_signature:
  "status_code (fst (allocate_storage t0 (http0\<lparr>data_storage := Some 3\<rparr>) 1
       (db_with (request0\<lparr>r_status := ''Approved''\<rparr>) (crate0\<lparr>c_storage := None\<rparr>)))) = 200
   \<and> map_option r_status (requests (snd (allocate_storage t0 (http0\<lparr>data_storage := Some 3\<rparr>) 1
       (db_with (request0\<lparr>r_status := ''Approved''\<rparr>) (crate0\<lparr>c_storage := None\<rparr>)))) 1) = Some ''Completed''
   \<and> map_option c_storage (crates (snd (allocate_storage t0 (http0\<lparr>data_storage := Some 3\<rparr>) 1
       (db_with (request0\<lparr>r_status := ''Approved''\<rparr>) (crate0\<lparr>c_storage := None\<rparr>)))) 1) = Some (Some 3)
   \<and> length (audit_trail (snd (allocate_storage t0 (http0\<lparr>data_storage := Some 3\<rparr>) 1
       (db_with (request0\<lparr>r_status := ''Approved''\<rparr>) (crate0\<lparr>c_storage := None\<rparr>))))) = 1
   \<and> digital_signatures (snd (allocate_storage t0 (http0\<lparr>data_storage := Some 3\<rparr>) 1
       (db_with (request0\<lparr>r_status := ''Approved''\<rparr>) (crate0\<lparr>c_storage := None\<rparr>)))) = []"
proof -
  have v: "AllocateStorageSerializer (http0\<lparr>data_storage := Some 3\<rparr>) = Some 3"
    by (simp add: AllocateStorageSerializer_def CharField_def py_strip_def is_space_def http0_def)
  show ?thesis
    unfolding allocate_storage_def v
    by (simp add: db_with_def request0_def Let_def log_defs audit_then_log_audit_event)
qed

text \<open>
  C5, amended. For each of the seven transitions (approve, reject, send back, allocate
  storage, issue, return, confirm destruction), on a stored request whose crate is in the
  store, the guard check, the state mutation and the audit append go together. When the
  guards hold (the body is valid, the request has the status and the type the transition
  asks for, and the storage named exists) the answer is 200 and all of it is committed: the
  request row is exactly the old one with its new status and stamps, the crate row is
  exactly the old one with its new status or location (and untouched where the transition
  does not concern the crate), the SendBack table has grown by the note or is as before,
  and the audit trail has grown by exactly the entries of this transition, with its
  action, the acting user, the request and the crate. When a guard fails none of it is
  committed: the answer is 400 or 404 and the database is the one before the call. Whatever
  the outcome, no transition writes a signature record. For an issue the requester of the
  request must still be set, and for a return the crate's previous storage must still be in
  the store.
\<close>

theorem transitions_write_state_and_audit:
  assumes "requests d pk = Some r" and "crates d (r_crate r) = Some c"
  shows "(ApproveRequestSerializer_is_valid req \<and> r_status r = ''Pending'' \<longrightarrow>
       status_code (fst (approve_request now req pk d)) = 200
       \<and> requests (snd (approve_request now req pk d)) = (requests d)(pk \<mapsto> r\<lparr>r_status := ''Approved'', approved_by := Some (u_id (req_user req)), approval_date := Some now\<rparr>)
       \<and> crates (snd (approve_request now req pk d)) = crates d
       \<and> sendbacks (snd (approve_request now req pk d)) = sendbacks d
       \<and> (\<exists>e. audit_trail (snd (approve_request now req pk d)) = audit_trail d @ [e]
           \<and> action e = ''Approved'' \<and> a_user e = Some (u_id (req_user req))
           \<and> a_request_id e = Some pk \<and> a_crate_id e = Some (r_crate r)
           \<and> action_time e = Some now))
    \<and> (\<not> (ApproveRequestSerializer_is_valid req \<and> r_status r = ''Pending'') \<longrightarrow>
       status_code (fst (approve_request now req pk d)) \<in> {400}
           \<and> snd (approve_request now req pk d) = d)
    \<and> digital_signatures (snd (approve_request now req pk d)) = digital_signatures d
    \<and> (RejectRequestSerializer req = Some reason \<and> (r_status r = ''Pending''
        \<or> r_status r = ''Sent Back'') \<longrightarrow>
       status_code (fst (reject_request now req pk d)) = 200
       \<and> requests (snd (reject_request now req pk d)) = (requests d)(pk \<mapsto> r\<lparr>r_status := ''Rejected''\<rparr>)
       \<and> crates (snd (reject_request now req pk d)) = (if request_type r = ''Withdrawal''
           \<and> c_status c = ''Withdrawn'' then (crates d)(r_crate r \<mapsto> c\<lparr>c_status := ''Active''\<rparr>) else crates d)
       \<and> sendbacks (snd (reject_request now req pk d)) = sendbacks d @ [\<lparr>sb_request = pk, sb_reason = reason, sb_created_by = u_id (req_user req), sendback_type = ''Change Request''\<rparr>]
       \<and> (request_type r = ''Withdrawal'' \<and> c_status c = ''Withdrawn'' \<longrightarrow>
           (\<exists>u e. audit_trail (snd (reject_request now req pk d)) = audit_trail d @ [u, e]
           \<and> action u = ''Updated'' \<and> a_request_id u = Some pk
           \<and> a_crate_id u = Some (r_crate r) \<and> action e = ''Rejected''
           \<and> a_user e = Some (u_id (req_user req)) \<and> a_request_id e = Some pk
           \<and> a_crate_id e = Some (r_crate r) \<and> action_time e = Some now))
       \<and> (\<not> (request_type r = ''Withdrawal'' \<and> c_status c = ''Withdrawn'') \<longrightarrow>
           (\<exists>e. audit_trail (snd (reject_request now req pk d)) = audit_trail d @ [e]
           \<and> action e = ''Rejected'' \<and> a_user e = Some (u_id (req_user req))
           \<and> a_request_id e = Some pk \<and> a_crate_id e = Some (r_crate r)
           \<and> action_time e = Some now)))
    \<and> (RejectRequestSerializer req = None \<or> \<not> (r_status r = ''Pending''
        \<or> r_status r = ''Sent Back'') \<longrightarrow>
       status_code (fst (reject_request now req pk d)) \<in> {400}
           \<and> snd (reject_request now req pk d) = d)
    \<and> digital_signatures (snd (reject_request now req pk d)) = digital_signatures d
    \<and> (SendBackCreateSerializer req = Some reason \<and> (r_status r = ''Pending''
        \<or> r_status r = ''Sent Back'') \<longrightarrow>
       status_code (fst (send_back_request now req pk d)) = 200
       \<and> requests (snd (send_back_request now req pk d)) = (requests d)(pk \<mapsto> r\<lparr>r_status := ''Sent Back''\<rparr>)
       \<and> crates (snd (send_back_request now req pk d)) = crates d
       \<and> sendbacks (snd (send_back_request now req pk d)) = sendbacks d @ [\<lparr>sb_request = pk, sb_reason = reason, sb_created_by = u_id (req_user req), sendback_type = ''Change Request''\<rparr>]
       \<and> (\<exists>e. audit_trail (snd (send_back_request now req pk d)) = audit_trail d @ [e]
           \<and> action e = ''Sent Back'' \<and> a_user e = Some (u_id (req_user req))
           \<and> a_request_id e = Some pk \<and> a_crate_id e = Some (r_crate r)
           \<and> action_time e = Some now))
    \<and> (SendBackCreateSerializer req = None \<or> \<not> (r_status r = ''Pending''
        \<or> r_status r = ''Sent Back'') \<longrightarrow>
       status_code (fst (send_back_request now req pk d)) \<in> {400}
           \<and> snd (send_back_request now req pk d) = d)
    \<and> digital_signatures (snd (send_back_request now req pk d)) = digital_signatures d
    \<and> (AllocateStorageSerializer req = Some sid \<and> r_status r = ''Approved''
        \<and> storages d sid = Some st \<longrightarrow>
       status_code (fst (allocate_storage now req pk d)) = 200
       \<and> requests (snd (allocate_storage now req pk d)) = (requests d)(pk \<mapsto> r\<lparr>allocation_date := Some now, allocated_by := Some (u_id (req_user req)), r_status := ''Completed''\<rparr>)
       \<and> crates (snd (allocate_storage now req pk d)) = (crates d)(r_crate r \<mapsto> c\<lparr>c_storage := Some sid\<rparr>)
       \<and> sendbacks (snd (allocate_storage now req pk d)) = sendbacks d
       \<and> (\<exists>e. audit_trail (snd (allocate_storage now req pk d)) = audit_trail d @ [e]
           \<and> action e = ''Allocated'' \<and> a_user e = Some (u_id (req_user req))
           \<and> a_request_id e = Some pk \<and> a_crate_id e = Some (r_crate r)
           \<and> a_storage_id e = Some (st_id st) \<and> action_time e = Some now))
    \<and> (AllocateStorageSerializer req = None \<or> r_status r \<noteq> ''Approved''
        \<or> (\<exists>sid'. AllocateStorageSerializer req = Some sid'
        \<and> storages d sid' = None) \<longrightarrow>
       status_code (fst (allocate_storage now req pk d)) \<in> {400, 404}
           \<and> snd (allocate_storage now req pk d) = d)
    \<and> digital_signatures (snd (allocate_storage now req pk d)) = digital_signatures d
    \<and> (ApproveRequestSerializer_is_valid req \<and> request_type r = ''Withdrawal''
        \<and> r_status r = ''Approved'' \<and> withdrawn_by r \<noteq> None \<longrightarrow>
       status_code (fst (issue_documents now req pk d)) = 200
       \<and> requests (snd (issue_documents now req pk d)) = (requests d)(pk \<mapsto> r\<lparr>r_status := ''Issued'', issue_date := Some now, issued_by := Some (u_id (req_user req))\<rparr>)
       \<and> crates (snd (issue_documents now req pk d)) = (crates d)(r_crate r \<mapsto> c\<lparr>c_status := ''Withdrawn''\<rparr>)
       \<and> sendbacks (snd (issue_documents now req pk d)) = sendbacks d
       \<and> (\<exists>e. audit_trail (snd (issue_documents now req pk d)) = audit_trail d @ [e]
           \<and> action e = ''Issued'' \<and> a_user e = Some (u_id (req_user req))
           \<and> a_request_id e = Some pk \<and> a_crate_id e = Some (r_crate r)
           \<and> action_time e = Some now))
    \<and> (\<not> (ApproveRequestSerializer_is_valid req \<and> request_type r = ''Withdrawal''
        \<and> r_status r = ''Approved'') \<longrightarrow>
       status_code (fst (issue_documents now req pk d)) \<in> {400}
           \<and> snd (issue_documents now req pk d) = d)
    \<and> digital_signatures (snd (issue_documents now req pk d)) = digital_signatures d
    \<and> (ReturnDocumentsSerializer req = Some (sid, note) \<and> request_type r = ''Withdrawal''
        \<and> r_status r = ''Issued'' \<and> storages d sid = Some st
        \<and> (\<forall>s0. c_storage c = Some s0 \<longrightarrow>
        storages d s0 \<noteq> None) \<longrightarrow>
       status_code (fst (return_documents now req pk d)) = 200
       \<and> requests (snd (return_documents now req pk d)) = (requests d)(pk \<mapsto> r\<lparr>r_status := ''Returned'', return_date := Some now\<rparr>)
       \<and> crates (snd (return_documents now req pk d)) = (crates d)(r_crate r \<mapsto> c\<lparr>c_status := ''Active'', c_storage := Some sid\<rparr>)
       \<and> sendbacks (snd (return_documents now req pk d)) = (if note = None
           \<or> note = Some [] then sendbacks d else sendbacks d @ [\<lparr>sb_request = pk, sb_reason = the note, sb_created_by = u_id (req_user req), sendback_type = ''Return Note''\<rparr>])
       \<and> (\<exists>e a. audit_trail (snd (return_documents now req pk d)) = audit_trail d @ [e, a]
           \<and> action e = ''Returned'' \<and> a_user e = Some (u_id (req_user req))
           \<and> a_request_id e = Some pk \<and> a_crate_id e = Some (r_crate r)
           \<and> action_time e = Some now \<and> action a = ''Allocated''
           \<and> a_storage_id a = Some (st_id st) \<and> a_crate_id a = Some (r_crate r)))
    \<and> (ReturnDocumentsSerializer req = None \<or> request_type r \<noteq> ''Withdrawal''
        \<or> r_status r \<noteq> ''Issued''
        \<or> (\<exists>sid' note'. ReturnDocumentsSerializer req = Some (sid', note')
        \<and> storages d sid' = None) \<longrightarrow>
       status_code (fst (return_documents now req pk d)) \<in> {400, 404}
           \<and> snd (return_documents now req pk d) = d)
    \<and> digital_signatures (snd (return_documents now req pk d)) = digital_signatures d
    \<and> (request_type r = ''Destruction'' \<and> r_status r = ''Approved'' \<longrightarrow>
       status_code (fst (confirm_destruction now req pk d)) = 200
       \<and> requests (snd (confirm_destruction now req pk d)) = (requests d)(pk \<mapsto> r\<lparr>r_status := ''Completed''\<rparr>)
       \<and> crates (snd (confirm_destruction now req pk d)) = (crates d)(r_crate r \<mapsto> c\<lparr>c_status := ''Destroyed''\<rparr>)
       \<and> sendbacks (snd (confirm_destruction now req pk d)) = sendbacks d
       \<and> (\<exists>e. audit_trail (snd (confirm_destruction now req pk d)) = audit_trail d @ [e]
           \<and> action e = ''Deleted'' \<and> a_user e = Some (u_id (req_user req))
           \<and> a_request_id e = None \<and> a_crate_id e = Some (r_crate r)
           \<and> action_time e = Some now))
    \<and> (\<not> (request_type r = ''Destruction'' \<and> r_status r = ''Approved'') \<longrightarrow>
       status_code (fst (confirm_destruction now req pk d)) \<in> {400}
           \<and> snd (confirm_destruction now req pk d) = d)
    \<and> digital_signatures (snd (confirm_destruction now req pk d)) = digital_signatures d"
  by (intro conjI approve_request_commits [OF assms] approve_request_refuses [OF assms] approve_request_signatures reject_request_commits [OF assms] reject_request_refuses [OF assms] reject_request_signatures send_back_request_commits [OF assms] send_back_request_refuses [OF assms] send_back_request_signatures allocate_storage_commits [OF assms] allocate_storage_refuses [OF assms] allocate_storage_signatures issue_documents_commits [OF assms] issue_documents_refuses [OF assms] issue_documents_signatures return_documents_commits [OF assms] return_documents_refuses [OF assms] return_documents_signatures confirm_destruction_commits [OF assms] confirm_destruction_refuses [OF assms] confirm_destruction_signatures)

theorem transitions_write_state_and_audit_witness:
  "requests (db_with request0 crate0) 1 = Some request0
   \<and> crates (db_with request0 crate0) (r_crate request0) = Some crate0
   \<and> ApproveRequestSerializer_is_valid http0 \<and> r_status request0 = ''Pending''
   \<and> status_code (fst (approve_request t0 http0 1 (db_with request0 crate0))) = 200
   \<and> requests (snd (approve_request t0 http0 1 (db_with request0 crate0))) =
       (requests (db_with request0 crate0))(1 \<mapsto> request0\<lparr>r_status := ''Approved'',
          approved_by := Some (u_id (req_user http0)), approval_date := Some t0\<rparr>)
   \<and> crates (snd (approve_request t0 http0 1 (db_with request0 crate0))) = crates (db_with request0 crate0)
   \<and> (\<exists>e. audit_trail (snd (approve_request t0 http0 1 (db_with request0 crate0))) =
             audit_trail (db_with request0 crate0) @ [e] \<and> action e = ''Approved'')
   \<and> status_code (fst (issue_documents t0 http0 1 (db_with request0 crate0))) = 400
   \<and> snd (issue_documents t0 http0 1 (db_with request0 crate0)) = db_with request0 crate0
   \<and> digital_signatures (snd (reject_request t0 http0 1 (db_with request0 crate0))) = []"
proof -
  have a: "requests (db_with request0 crate0) 1 = Some request0" by (simp add: db_with_def)
  have b: "crates (db_with request0 crate0) (r_crate request0) = Some crate0"
    by (simp add: db_with_def request0_def)
  have g: "ApproveRequestSerializer_is_valid http0 \<and> r_status request0 = ''Pending''"
    using http0_valid(1) by (simp add: request0_def)
  have n: "\<not> (ApproveRequestSerializer_is_valid http0 \<and> request_type request0 = ''Withdrawal''
              \<and> r_status request0 = ''Approved'')"
    by (simp add: request0_def)
  have s: "digital_signatures (db_with request0 crate0) = []" by (simp add: db_with_def)
  note T = transitions_write_state_and_audit [OF a b, where now = t0 and req = http0]
  note T3 = T [THEN conjunct2, THEN conjunct2, THEN conjunct2]
  note T6 = T3 [THEN conjunct2, THEN conjunct2, THEN conjunct2]
  note T12 = T6 [THEN conjunct2, THEN conjunct2, THEN conjunct2, THEN conjunct2, THEN conjunct2,
      THEN conjunct2]
  have 1: "status_code (fst (approve_request t0 http0 1 (db_with request0 crate0))) = 200
     \<and> requests (snd (approve_request t0 http0 1 (db_with request0 crate0))) =
       (requests (db_with request0 crate0))(1 \<mapsto> request0\<lparr>r_status := ''Approved'',
          approved_by := Some (u_id (req_user http0)), approval_date := Some t0\<rparr>)
     \<and> crates (snd (approve_request t0 http0 1 (db_with request0 crate0))) = crates (db_with request0 crate0)
     \<and> (\<exists>e. audit_trail (snd (approve_request t0 http0 1 (db_with request0 crate0))) =
             audit_trail (db_with request0 crate0) @ [e] \<and> action e = ''Approved'')"
    using mp [OF T [THEN conjunct1] g] by blast
  have 2: "status_code (fst (issue_documents t0 http0 1 (db_with request0 crate0))) = 400
     \<and> snd (issue_documents t0 http0 1 (db_with request0 crate0)) = db_with request0 crate0"
    using mp [OF T12 [THEN conjunct2, THEN conjunct1] n] by simp
  have 3: "digital_signatures (snd (reject_request t0 http0 1 (db_with request0 crate0))) = []"
    using T3 [THEN conjunct2, THEN conjunct2, THEN conjunct1] s by simp
  from a b g 1 2 3 show ?thesis by blast
qed

section \<open>Properties of the barcode sequencer\<close>

subsection \<open>Decimal text\<close>



lemma length_dec [simp]: "length (dec k n) = k"
  by (induction k arbitrary: n) simp_all





lemma append_le_cancel: "p @ x \<le> p @ y \<longleftrightarrow> x \<le> (y :: string)"
  by (induction p) simp_all













subsection \<open>The next number\<close>





subsection \<open>Saving a crate\<close>


lemma Crate_super_save_Inr:
  "Crate_super_save self d = Inr (c', d') \<Longrightarrow>
     barcode c' = barcode self \<and>
     c' = self\<lparr>c_pk := (case c_pk self of None \<Rightarrow> Some (Suc (crate_seq d)) | Some k \<Rightarrow> Some k)\<rparr>"
  by (auto simp: Crate_super_save_def Let_def split: if_splits option.splits)


lemma Crate_save_later:
  "barcode self \<noteq> [] \<Longrightarrow> Crate_save now uuid1 self d = Inr (c', d') \<Longrightarrow> barcode c' = barcode self"
  by (auto simp: Crate_save_def dest: Crate_super_save_Inr)











subsection \<open>Tampering with a record that verifies\<close>

lemma tamper_data_hash:
  "fst (verify_integrity H J s) \<Longrightarrow> h \<noteq> data_hash s \<Longrightarrow>
     verify_integrity H J (s\<lparr>data_hash := h\<rparr>) =
       (False, ''Data hash mismatch - signature data has been tampered with'')"
  by (auto simp: verify_integrity_def Let_def split: if_splits)

lemma tamper_signature_hash:
  "fst (verify_integrity H J s) \<Longrightarrow> h \<noteq> signature_hash s \<Longrightarrow>
     verify_integrity H J (s\<lparr>signature_hash := h\<rparr>) =
       (False, ''Signature hash mismatch - signature has been altered'')"
  by (auto simp: verify_integrity_def Let_def signature_string_def split: if_splits)

lemma tamper_signature_data:
  "fst (verify_integrity H J s) \<Longrightarrow>
     fst (verify_integrity H J (s\<lparr>signature_data := v\<rparr>)) = (H (J v) = H (J (signature_data s)))"
  by (auto simp: verify_integrity_def Let_def signature_string_def split: if_splits)

lemma tamper_signer_username:
  "fst (verify_integrity H J s) \<Longrightarrow>
     fst (verify_integrity H J (s\<lparr>signer_username := v\<rparr>)) =
       (H (signature_string (s\<lparr>signer_username := v\<rparr>)) = H (signature_string s))"
  by (auto simp: verify_integrity_def Let_def split: if_splits)

end
